theory Spec2Isabelle
  imports Complex_Main "HOL-Library.Char_ord" "HOL-Library.List_Lexorder" "HOL-Library.Log_Nat"
    "HOL-Library.Multiset"
begin

section \<open>Values of the TypeScript sources\<close>

text \<open>
  A thrown JavaScript error carries a name and a message; \<open>new Error(m)\<close> has the name
  \<open>Error\<close>. Every \<open>throw\<close> of the sources is an \<open>Inl\<close> of a result.
\<close>

datatype error = JsError (err_name: string) (message: string)

abbreviation Error :: "string \<Rightarrow> error" where
  "Error m \<equiv> JsError ''Error'' m"

text \<open>The template string \<open>`${error}`\<close>: the name, a colon and the message.\<close>

definition error_to_string :: "error \<Rightarrow> string" where
  "error_to_string e =
     (if message e = [] then err_name e else err_name e @ '': '' @ message e)"

text \<open>
  viem's \<open>Address\<close>, \<open>Hash\<close> and call data are all the template type
  \<open>`0x${string}`\<close>. A value \<open>Hex s\<close> stands for the string \<open>0x\<close> followed by
  \<open>s\<close>; so every value of the type is a non-empty string, which JavaScript treats as
  true in a condition.
\<close>

datatype hex = Hex string

text \<open>\<open>String.prototype.toLowerCase\<close> on the ASCII letters an address is made of.\<close>

definition lower_char :: "char \<Rightarrow> char" where
  "lower_char c =
     (case map_of (zip ''ABCDEFGHIJKLMNOPQRSTUVWXYZ'' ''abcdefghijklmnopqrstuvwxyz'') c of
        None \<Rightarrow> c
      | Some l \<Rightarrow> l)"

fun toLowerCase :: "hex \<Rightarrow> hex" where
  "toLowerCase (Hex s) = Hex (map lower_char s)"

text \<open>
  A JavaScript \<open>number\<close> is an IEEE 754 double: a finite one is a rational, and
  arithmetic on numbers rounds its exact result to the nearest double (\<open>round_double\<close>
  below). An absent field (\<open>undefined\<close>) and \<open>NaN\<close> are both \<open>None\<close>: the code
  only asks whether they are truthy. The two infinities are not among the configuration
  numbers of the model. A \<open>bigint\<close> is an \<open>int\<close>.
\<close>

datatype numeric = Number rat | Bigint int

text \<open>
  \<open>BigInt(v)\<close>: the identity on a bigint; on a number it throws a RangeError unless the
  number is an integer.
\<close>

fun BigInt :: "numeric \<Rightarrow> error + int" where
  "BigInt (Bigint n) = Inr n"
| "BigInt (Number x) =
     (if x = of_int \<lfloor>x\<rfloor> then Inr \<lfloor>x\<rfloor>
      else Inl (JsError ''RangeError'' ''The number cannot be converted to a BigInt because it is not an integer''))"

text \<open>\<open>a || b\<close> for an optional configuration number \<open>a\<close>: \<open>b\<close> when \<open>a\<close> is
  \<open>undefined\<close>, \<open>NaN\<close> or \<open>0\<close>.\<close>

definition or_else :: "rat option \<Rightarrow> numeric \<Rightarrow> numeric" where
  "or_else a b = (case a of None \<Rightarrow> b | Some x \<Rightarrow> if x = 0 then b else Number x)"

text \<open>\<open>Number(a) || d\<close> for an optional configuration number: the default \<open>d\<close>
  when \<open>a\<close> is \<open>undefined\<close>, \<open>NaN\<close> or \<open>0\<close>.\<close>

definition number_or :: "rat option \<Rightarrow> rat \<Rightarrow> rat" where
  "number_or a d = (case a of None \<Rightarrow> d | Some x \<Rightarrow> if x = 0 then d else x)"

text \<open>
  Rounding to the nearest double, ties to the even significand. For \<open>x \<noteq> 0\<close> the binary
  exponent \<open>e\<close> is the one with \<open>2^e \<le> |x| < 2^(e+1)\<close>; a double has 53 significant
  bits, so its last bit is worth \<open>2^(e-52)\<close>, and \<open>2^-1074\<close> for the subnormal numbers.
  The only arithmetic the sources do on numbers is the subtraction of 1 from a double, whose
  result is never out of the range of the doubles.
\<close>

definition pow2 :: "int \<Rightarrow> rat" where
  "pow2 k = (if k \<ge> 0 then 2 ^ nat k else 1 / 2 ^ nat (- k))"

definition binary_exponent :: "rat \<Rightarrow> int" where
  "binary_exponent x =
     (let k = bitlen (fst (quotient_of \<bar>x\<bar>)) - bitlen (snd (quotient_of \<bar>x\<bar>))
      in if pow2 k \<le> \<bar>x\<bar> then k else k - 1)"

definition round_half_even :: "rat \<Rightarrow> int" where
  "round_half_even x =
     (let f = \<lfloor>x\<rfloor>; r = x - of_int f
      in if r < 1 / 2 then f else if r > 1 / 2 then f + 1 else if even f then f else f + 1)"

definition round_double :: "rat \<Rightarrow> rat" where
  "round_double x =
     (if x = 0 then 0
      else let q = pow2 (max (binary_exponent x - 52) (- 1074))
           in of_int (round_half_even (x / q)) * q)"

text \<open>\<open>a - b\<close> on numbers.\<close>

definition number_minus :: "rat \<Rightarrow> rat \<Rightarrow> rat" where
  "number_minus a b = round_double (a - b)"

record AcpContractConfig =
  chain :: nat
  contractAddress :: hex
  virtualsTokenAddress :: hex
  priorityFeeMultiplier :: "rat option"
  cfg_maxFeePerGas :: "rat option"
  cfg_maxPriorityFeePerGas :: "rat option"

section \<open>JSON values and the canonical payload\<close>

text \<open>\<open>Number.prototype.toString\<close> on a natural number, for the template strings.\<close>

definition digit_char :: "nat \<Rightarrow> char" where
  "digit_char d = char_of (of_char CHR ''0'' + d)"

fun string_of_nat :: "nat \<Rightarrow> string" where
  "string_of_nat n = (if n < 10 then [digit_char n] else string_of_nat (n div 10) @ [digit_char (n mod 10)])"

declare string_of_nat.simps [simp del]

text \<open>
  A JSON value as JavaScript holds it after \<open>JSON.parse\<close>. The members of an object are
  listed in the order of \<open>Object.keys\<close>; a JavaScript object has each key once
  (\<open>wf_json\<close> below). Numbers are the integers.
\<close>

datatype json =
    JNull
  | JBool bool
  | JNumber int
  | JString string
  | JArray "json list"
  | JObject "(string \<times> json) list"

text \<open>
  An array index is the canonical decimal string of an integer up to \<open>2^32 - 2\<close>. An
  ordinary object lists such keys first, in ascending numeric order, and then its other
  string keys in the order of their creation.
\<close>

definition is_digit :: "char \<Rightarrow> bool" where
  "is_digit c = (CHR ''0'' \<le> c \<and> c \<le> CHR ''9'')"

definition decimal_value :: "string \<Rightarrow> int" where
  "decimal_value s = foldl (\<lambda>n c. 10 * n + (of_char c - of_char CHR ''0'')) 0 s"

definition is_array_index :: "string \<Rightarrow> bool" where
  "is_array_index k =
     (case k of
        [] \<Rightarrow> False
      | c # cs \<Rightarrow> list_all is_digit k \<and> (cs = [] \<or> c \<noteq> CHR ''0'')
                  \<and> decimal_value k \<le> 4294967294)"

fun insert_index :: "string \<Rightarrow> json \<Rightarrow> (string \<times> json) list \<Rightarrow> (string \<times> json) list" where
  "insert_index k v [] = [(k, v)]"
| "insert_index k v ((k', v') # rest) =
     (if is_array_index k' \<and> decimal_value k' < decimal_value k
      then (k', v') # insert_index k v rest
      else (k, v) # (k', v') # rest)"

text \<open>
  The assignment \<open>obj[k] = v\<close> on an ordinary object. Assigning \<open>__proto__\<close> runs the
  setter inherited from \<open>Object.prototype\<close> and creates no own property.
\<close>

definition set_property :: "(string \<times> json) list \<Rightarrow> string \<Rightarrow> json \<Rightarrow> (string \<times> json) list" where
  "set_property obj k v =
     (if k = ''__proto__'' then obj
      else if k \<in> fst ` set obj then map (\<lambda>(k', v'). if k' = k then (k', v) else (k', v')) obj
      else if is_array_index k then insert_index k v obj
      else obj @ [(k, v)])"

text \<open>A member of an object is smaller than the object: \<open>sortObject\<close> terminates.\<close>

lemma size_map_of:
  "map_of obj k = Some (v::json) \<Longrightarrow> size v \<le> size_list (size_prod (\<lambda>x. 0) size) obj"
  by (induction obj) (auto split: if_splits)

text \<open>
  \<open>sortObject\<close> (privySessionSigner.ts, lines 713-722, and the same function at lines
  316-325 and in acpContractClient.ts, lines 914-923). The keys come from
  \<open>Object.keys(obj)\<close>, so \<open>obj[key]\<close> is always there. \<open>Array.prototype.sort\<close>
  without a comparator orders strings by their code units; on the ASCII keys of a payload
  that is the lexicographic order of the characters.
\<close>

function sortObject :: "json \<Rightarrow> json" where
  "sortObject (JArray xs) = JArray (map sortObject xs)"
| "sortObject (JObject obj) =
     JObject (foldl (\<lambda>sorted key. case map_of obj key of
                                      None \<Rightarrow> sorted
                                    | Some v \<Rightarrow> set_property sorted key (sortObject v))
                    [] (sort (map fst obj)))"
| "sortObject JNull = JNull"
| "sortObject (JBool b) = JBool b"
| "sortObject (JNumber n) = JNumber n"
| "sortObject (JString s) = JString s"
  by pat_completeness auto
termination
  by (relation "measure size") (auto simp: size_map_of less_Suc_eq_le size_list_estimation')

text \<open>\<open>JSON.stringify\<close> without an indent argument: a single line.\<close>

fun string_of_int :: "int \<Rightarrow> string" where
  "string_of_int n = (if n < 0 then CHR ''-'' # string_of_nat (nat (- n)) else string_of_nat (nat n))"

definition hex_char :: "nat \<Rightarrow> char" where
  "hex_char d = (if d < 10 then char_of (of_char CHR ''0'' + d) else char_of (of_char CHR ''a'' + (d - 10)))"

definition escape_char :: "char \<Rightarrow> string" where
  "escape_char c =
     (if c = CHR 0x22 then [CHR 0x5C, CHR 0x22]
      else if c = CHR 0x5C then [CHR 0x5C, CHR 0x5C]
      else if c = CHR 0x08 then [CHR 0x5C, CHR ''b'']
      else if c = CHR 0x0C then [CHR 0x5C, CHR ''f'']
      else if c = CHR 0x0A then [CHR 0x5C, CHR ''n'']
      else if c = CHR 0x0D then [CHR 0x5C, CHR ''r'']
      else if c = CHR 0x09 then [CHR 0x5C, CHR ''t'']
      else if (of_char c :: nat) < 32
        then [CHR 0x5C, CHR ''u'', CHR ''0'', CHR ''0'', hex_char (of_char c div 16), hex_char (of_char c mod 16)]
      else [c])"

definition quote :: "string \<Rightarrow> string" where
  "quote s = CHR 0x22 # concat (map escape_char s) @ [CHR 0x22]"

fun join :: "string \<Rightarrow> string list \<Rightarrow> string" where
  "join sep [] = []"
| "join sep [x] = x"
| "join sep (x # y # ys) = x @ sep @ join sep (y # ys)"

fun JSON_stringify :: "json \<Rightarrow> string" where
  "JSON_stringify JNull = ''null''"
| "JSON_stringify (JBool b) = (if b then ''true'' else ''false'')"
| "JSON_stringify (JNumber n) = string_of_int n"
| "JSON_stringify (JString s) = quote s"
| "JSON_stringify (JArray xs) = ''['' @ join '','' (map JSON_stringify xs) @ '']''"
| "JSON_stringify (JObject obj) =
     ''{'' @ join '','' (map (\<lambda>(k, v). quote k @ '':'' @ JSON_stringify v) obj) @ ''}''"

text \<open>The canonical payload: the string that is signed.\<close>

definition canonicalize :: "json \<Rightarrow> string" where
  "canonicalize x = JSON_stringify (sortObject x)"

text \<open>The values JavaScript can hold: every object has each key once.\<close>

fun wf_json :: "json \<Rightarrow> bool" where
  "wf_json (JArray xs) = list_all wf_json xs"
| "wf_json (JObject obj) = (distinct (map fst obj) \<and> list_all (\<lambda>(k, v). wf_json v) obj)"
| "wf_json v = True"

text \<open>Two values that differ only in the order of the keys of their objects, at any depth.\<close>

inductive same_up_to_key_order :: "json \<Rightarrow> json \<Rightarrow> bool" where
  same: "same_up_to_key_order v v"
| arrays: "list_all2 same_up_to_key_order xs ys \<Longrightarrow> same_up_to_key_order (JArray xs) (JArray ys)"
| objects: "list_all2 (\<lambda>p q. fst p = fst q \<and> same_up_to_key_order (snd p) (snd q)) obj obj1 \<Longrightarrow>
            mset obj1 = mset obj2 \<Longrightarrow> same_up_to_key_order (JObject obj) (JObject obj2)"


section \<open>The collaborators: chain client, signing authority, sponsorship service\<close>

text \<open>
  The transaction object handed to \<open>sessionSigner.sendTransaction\<close>, the argument of
  \<open>publicClient.estimateGas\<close>, and the one of the smart account client.
\<close>

record signer_tx =
  tx_to :: hex
  tx_data :: hex
  tx_value :: "int option"
  tx_gas :: "int option"
  tx_maxFeePerGas :: "int option"
  tx_chain :: "nat option"

record gas_request =
  gr_account :: hex
  gr_to :: hex
  gr_data :: hex
  gr_value :: "int option"
  gr_maxFeePerGas :: int

record sponsored_tx =
  sp_to :: hex
  sp_data :: hex
  sp_value :: int

record log_entry =
  log_address :: hex
  log_data :: hex

record receipt =
  receipt_status :: string
  receipt_logs :: "log_entry list"

record fetch_request =
  fr_url :: string
  fr_method :: string
  fr_headers :: "(string \<times> string) list"
  fr_body :: string

record fetch_response =
  resp_ok :: bool
  resp_text :: string

text \<open>
  What the session signer reads of the \<open>PrivyClient\<close> object it has constructed:
  whether \<open>walletApi\<close> is there, and whether \<open>walletApi.ethereum\<close> is. The
  argument of \<open>walletApi.ethereum.sendTransaction\<close> follows.
\<close>

record privy_client =
  has_walletApi :: bool
  has_ethereum :: bool

record wallet_request =
  wr_walletId :: string
  wr_to :: hex
  wr_value :: string
  wr_data :: "hex option"
  wr_caip2 :: string

text \<open>
  Every call that leaves the process is recorded, in order, in the history; the history is
  what the claims about attempts, retries and ordering are stated on.
\<close>

datatype call =
    EstimateFeesPerGas
  | EstimateGas gas_request
  | SignerSendTransaction signer_tx
  | SmartAccountSendTransaction sponsored_tx
  | WaitForTransactionReceipt hex
  | GetTransactionReceipt hex
  | SetTimeout nat
  | GetBalance hex
  | ReadBalanceOf hex hex
  | Fetch fetch_request
  | WalletApiSendTransaction wallet_request

text \<open>
  The arguments of \<open>encodeFunctionData\<close>: the function of the ABI and its arguments.
\<close>

datatype contract_call =
    CreateJob string string int
  | Erc20Transfer hex int

text \<open>
  The world answers each call; the answer may depend on everything that happened before
  (the history), so a call repeated later can be answered differently. The libraries the
  sources call without the network are parameters too: viem's \<open>fromHex\<close> and
  \<open>encodeFunctionData\<close> (the contract encoder, a pure function that throws on arguments
  it cannot encode, such as a string that is not an address), \<open>JSON.parse\<close>, and
  node's \<open>crypto\<close>: \<open>w_createPrivateKey\<close> turns the base64 text of a DER blob into a
  PEM key, \<open>w_sign\<close> signs a payload with a PEM key; both throw on a key they cannot
  read. The package \<open>@privy-io/server-auth\<close> is a parameter as well: its dynamic
  import (\<open>Some e\<close> when the import throws), the constructor \<open>new PrivyClient\<close>
  with the application id, the application secret and the authorization private key (it
  throws on a key it refuses), and the SDK's \<open>walletApi.ethereum.sendTransaction\<close>,
  which goes to the network.
\<close>

record world =
  w_estimateFeesPerGas :: "call list \<Rightarrow> error + (int \<times> int)"
  w_estimateGas :: "call list \<Rightarrow> gas_request \<Rightarrow> error + int"
  w_signerSendTransaction :: "call list \<Rightarrow> signer_tx \<Rightarrow> error + hex"
  w_smartAccountSendTransaction :: "call list \<Rightarrow> sponsored_tx \<Rightarrow> error + hex"
  w_waitForTransactionReceipt :: "call list \<Rightarrow> hex \<Rightarrow> error + receipt"
  w_getTransactionReceipt :: "call list \<Rightarrow> hex \<Rightarrow> error + receipt"
  w_getBalance :: "call list \<Rightarrow> hex \<Rightarrow> error + int"
  w_readBalanceOf :: "call list \<Rightarrow> hex \<Rightarrow> hex \<Rightarrow> error + int"
  w_fromHexNumber :: "hex \<Rightarrow> error + int"
  w_encodeFunctionData :: "contract_call \<Rightarrow> error + hex"
  w_fetch :: "call list \<Rightarrow> fetch_request \<Rightarrow> error + fetch_response"
  w_JSON_parse :: "string \<Rightarrow> error + json"
  w_createPrivateKey :: "string \<Rightarrow> error + string"
  w_sign :: "string \<Rightarrow> string \<Rightarrow> error + string"
  w_import_server_auth :: "error option"
  w_PrivyClient :: "string \<Rightarrow> string \<Rightarrow> string \<Rightarrow> error + privy_client"
  w_walletApiSendTransaction :: "call list \<Rightarrow> wallet_request \<Rightarrow> error + json"

record state =
  history :: "call list"
  pendingNonce :: nat

definition perform :: "call \<Rightarrow> state \<Rightarrow> state" where
  "perform c s = s\<lparr>history := history s @ [c]\<rparr>"

definition estimateFeesPerGas :: "world \<Rightarrow> state \<Rightarrow> (error + (int \<times> int)) \<times> state" where
  "estimateFeesPerGas w s = (w_estimateFeesPerGas w (history s), perform EstimateFeesPerGas s)"

section \<open>FeeEstimator: calculateGasFees\<close>

text \<open>
  \<open>calculateGasFees\<close> (acpContractClient.ts, lines 1325-1342, and the same text at lines
  95-112). \<open>finalMaxFeePerGas\<close> is what lines 1329-1339 compute from the two live fees:
  the three \<open>BigInt\<close> conversions run left to right, and the first that throws ends the
  call. \<open>priorityFeeMultiplier - 1\<close> is a subtraction of numbers, \<open>Math.max\<close> is exact.
\<close>

definition finalMaxFeePerGas :: "AcpContractConfig \<Rightarrow> int \<Rightarrow> int \<Rightarrow> error + int" where
  "finalMaxFeePerGas cfg maxFeePerGas maxPriorityFeePerGas =
     (let multiplier = number_or (priorityFeeMultiplier cfg) 2;
          overrideMaxFeePerGas = or_else (cfg_maxFeePerGas cfg) (Bigint maxFeePerGas);
          overrideMaxPriorityFeePerGas =
            or_else (cfg_maxPriorityFeePerGas cfg) (Bigint maxPriorityFeePerGas)
      in case BigInt overrideMaxFeePerGas of
           Inl e \<Rightarrow> Inl e
         | Inr a \<Rightarrow>
            (case BigInt overrideMaxPriorityFeePerGas of
               Inl e \<Rightarrow> Inl e
             | Inr b \<Rightarrow>
                (case BigInt (Number (max 0 (number_minus multiplier 1))) of
                   Inl e \<Rightarrow> Inl e
                 | Inr k \<Rightarrow> Inr (a + b * k))))"

definition calculateGasFees :: "world \<Rightarrow> AcpContractConfig \<Rightarrow> state \<Rightarrow> (error + int) \<times> state" where
  "calculateGasFees w cfg s =
     (case estimateFeesPerGas w s of
        (Inl e, s1) \<Rightarrow> (Inl e, s1)
      | (Inr (maxFeePerGas, maxPriorityFeePerGas), s1) \<Rightarrow>
          (finalMaxFeePerGas cfg maxFeePerGas maxPriorityFeePerGas, s1))"

section \<open>DispatchRouter: the sponsored and the direct path\<close>

definition estimateGas :: "world \<Rightarrow> gas_request \<Rightarrow> state \<Rightarrow> (error + int) \<times> state" where
  "estimateGas w req s = (w_estimateGas w (history s) req, perform (EstimateGas req) s)"

definition signerSendTransaction :: "world \<Rightarrow> signer_tx \<Rightarrow> state \<Rightarrow> (error + hex) \<times> state" where
  "signerSendTransaction w tx s =
     (w_signerSendTransaction w (history s) tx, perform (SignerSendTransaction tx) s)"

definition smartAccountSendTransaction :: "world \<Rightarrow> sponsored_tx \<Rightarrow> state \<Rightarrow> (error + hex) \<times> state" where
  "smartAccountSendTransaction w tx s =
     (w_smartAccountSendTransaction w (history s) tx, perform (SmartAccountSendTransaction tx) s)"

definition waitForTransactionReceipt :: "world \<Rightarrow> hex \<Rightarrow> state \<Rightarrow> (error + receipt) \<times> state" where
  "waitForTransactionReceipt w h s =
     (w_waitForTransactionReceipt w (history s) h, perform (WaitForTransactionReceipt h) s)"

definition getTransactionReceipt :: "world \<Rightarrow> hex \<Rightarrow> state \<Rightarrow> (error + receipt) \<times> state" where
  "getTransactionReceipt w h s =
     (w_getTransactionReceipt w (history s) h, perform (GetTransactionReceipt h) s)"

definition setTimeout :: "nat \<Rightarrow> state \<Rightarrow> state" where
  "setTimeout ms s = perform (SetTimeout ms) s"

text \<open>\<open>String.prototype.startsWith\<close> and \<open>String.prototype.includes\<close>.\<close>

fun startsWith :: "string \<Rightarrow> string \<Rightarrow> bool" where
  "startsWith s [] = True"
| "startsWith [] (p # ps) = False"
| "startsWith (c # cs) (p # ps) = (c = p \<and> startsWith cs ps)"

fun string_includes :: "string \<Rightarrow> string \<Rightarrow> bool" where
  "string_includes [] p = (p = [])"
| "string_includes (c # cs) p = (startsWith (c # cs) p \<or> string_includes cs p)"

text \<open>
  The client: its configuration, the address of its session signer, and whether
  \<open>this.gasSponsorshipManager?.isInitialized()\<close> holds. \<open>init\<close> drops the manager when
  its \<open>initialize\<close> fails, so a manager that is there has its smart account client.
\<close>

record client =
  client_config :: AcpContractConfig
  signerAddress :: hex
  sponsorship :: bool

text \<open>The test of the catch block of \<open>sendSponsoredTransaction\<close> (line 1134).\<close>

definition is_nonce_error :: "error \<Rightarrow> bool" where
  "is_nonce_error e = (string_includes (message e) ''AA25'' \<or> string_includes (message e) ''nonce'')"

text \<open>
  \<open>GasSponsorshipManager.sendSponsoredTransaction\<close> (lines 1102-1159). The result is the
  hash or \<open>null\<close>; the method never throws. The promise chain \<open>nonceQueue\<close> only orders
  concurrent callers; the model is one caller at a time.
\<close>

definition sendSponsoredTransaction ::
  "world \<Rightarrow> bool \<Rightarrow> hex \<Rightarrow> hex \<Rightarrow> int option \<Rightarrow> state \<Rightarrow> hex option \<times> state" where
  "sendSponsoredTransaction w smartAccountClient to data val s =
     (if \<not> smartAccountClient then (None, s)
      else
        (let tx = \<lparr>sp_to = to, sp_data = data, sp_value = (case val of None \<Rightarrow> 0 | Some v \<Rightarrow> v)\<rparr>;
             s1 = (if pendingNonce s > 0 then setTimeout 500 s else s)
         in case smartAccountSendTransaction w tx s1 of
              (Inr hash, s2) \<Rightarrow> (Some hash, s2\<lparr>pendingNonce := pendingNonce s2 + 1\<rparr>)
            | (Inl e, s2) \<Rightarrow>
                if is_nonce_error e then
                  (case smartAccountSendTransaction w tx (setTimeout 2000 s2) of
                     (Inr hash, s3) \<Rightarrow> (Some hash, s3\<lparr>pendingNonce := pendingNonce s3 + 1\<rparr>)
                   | (Inl retryError, s3) \<Rightarrow> (None, s3))
                else (None, s2)))"

text \<open>
  The regular transaction flow: the whole of \<open>sendTransaction\<close> in the client without
  sponsorship (lines 114-146), and the part of the sponsoring client's \<open>sendTransaction\<close>
  after its sponsored attempt (lines 1372-1400).
\<close>

definition sendTransactionDirect ::
  "world \<Rightarrow> client \<Rightarrow> hex \<Rightarrow> hex \<Rightarrow> int option \<Rightarrow> state \<Rightarrow> (error + hex) \<times> state" where
  "sendTransactionDirect w c to data val s =
     (case calculateGasFees w (client_config c) s of
        (Inl e, s1) \<Rightarrow> (Inl e, s1)
      | (Inr maxFeePerGas, s1) \<Rightarrow>
         (case estimateGas w \<lparr>gr_account = signerAddress c, gr_to = to, gr_data = data,
                               gr_value = val, gr_maxFeePerGas = maxFeePerGas\<rparr> s1 of
            (Inl e, s2) \<Rightarrow> (Inl e, s2)
          | (Inr gas, s2) \<Rightarrow>
             (case signerSendTransaction w
                     \<lparr>tx_to = to, tx_data = data, tx_value = val, tx_gas = Some gas,
                      tx_maxFeePerGas = Some maxFeePerGas,
                      tx_chain = Some (chain (client_config c))\<rparr> s2 of
                (Inl e, s3) \<Rightarrow> (Inl e, s3)
              | (Inr hash, s3) \<Rightarrow>
                 (case waitForTransactionReceipt w hash s3 of
                    (Inl e, s4) \<Rightarrow> (Inl e, s4)
                  | (Inr receipt, s4) \<Rightarrow>
                     if receipt_status receipt = ''success'' then (Inr hash, s4)
                     else (Inl (Error ''Transaction failed''), s4)))))"

text \<open>\<open>sendTransaction\<close> of the sponsoring client (lines 1344-1400).\<close>

definition sendTransaction ::
  "world \<Rightarrow> client \<Rightarrow> hex \<Rightarrow> hex \<Rightarrow> int option \<Rightarrow> bool \<Rightarrow> state \<Rightarrow> (error + hex) \<times> state" where
  "sendTransaction w c to data val forceEOA s =
     (if \<not> forceEOA \<and> sponsorship c then
        (case sendSponsoredTransaction w (sponsorship c) to data val s of
           (Some sponsoredHash, s1) \<Rightarrow>
             (case waitForTransactionReceipt w sponsoredHash s1 of
                (Inl e, s2) \<Rightarrow> (Inl e, s2)
              | (Inr receipt, s2) \<Rightarrow>
                  if receipt_status receipt = ''success'' then (Inr sponsoredHash, s2)
                  else sendTransactionDirect w c to data val s2)
         | (None, s1) \<Rightarrow> sendTransactionDirect w c to data val s1)
      else sendTransactionDirect w c to data val s)"

section \<open>JobPhaseMachine: createJob and the recovery of the job id\<close>

text \<open>\<open>getJobIdFromTx\<close> (lines 1403-1415): \<open>Array.prototype.find\<close> is \<open>find\<close>.\<close>

definition getJobIdFromTx :: "world \<Rightarrow> client \<Rightarrow> hex \<Rightarrow> state \<Rightarrow> (error + int) \<times> state" where
  "getJobIdFromTx w c hash s =
     (case getTransactionReceipt w hash s of
        (Inl e, s1) \<Rightarrow> (Inl e, s1)
      | (Inr receipt, s1) \<Rightarrow>
         (case find (\<lambda>log. toLowerCase (log_address log)
                              = toLowerCase (contractAddress (client_config c)))
                    (receipt_logs receipt) of
            None \<Rightarrow> (Inl (Error ''Failed to get contract logs''), s1)
          | Some contractLog \<Rightarrow> (w_fromHexNumber w (log_data contractLog), s1)))"

record job_created =
  txHash :: hex
  jobId :: int

text \<open>The error a failing \<open>createJob\<close> rethrows: \<open>error.message || error\<close> in a template.\<close>

definition create_job_error :: "error \<Rightarrow> error" where
  "create_job_error e =
     Error (''Failed to create job: '' @ (if message e = [] then error_to_string e else message e))"

text \<open>
  \<open>createJob\<close> (lines 1417-1441). \<open>expireAt\<close> is the date's \<open>getTime()\<close>, in
  milliseconds. The encoding of the call is inside the \<open>try\<close> as well.
\<close>

definition createJob ::
  "world \<Rightarrow> client \<Rightarrow> string \<Rightarrow> string \<Rightarrow> int \<Rightarrow> state \<Rightarrow> (error + job_created) \<times> state" where
  "createJob w c providerAddress evaluatorAddress expireAt s =
     (case w_encodeFunctionData w
             (CreateJob providerAddress evaluatorAddress (expireAt div 1000)) of
        Inl e \<Rightarrow> (Inl (create_job_error e), s)
      | Inr data \<Rightarrow>
         (case sendTransaction w c (contractAddress (client_config c)) data None False s of
            (Inl e, s1) \<Rightarrow> (Inl (create_job_error e), s1)
          | (Inr hash, s1) \<Rightarrow>
             (case getJobIdFromTx w c hash s1 of
                (Inl e, s2) \<Rightarrow> (Inl (create_job_error e), s2)
              | (Inr n, s2) \<Rightarrow> (Inr \<lparr>txHash = hash, jobId = n\<rparr>, s2))))"

section \<open>Batch dispatch\<close>

record batch_tx =
  bt_to :: hex
  bt_data :: hex
  bt_value :: "int option"

text \<open>
  \<open>sendBatchTransactions\<close> (lines 331-350), in the client without sponsorship: the
  \<open>for\<close> loop over the requests, with the hashes collected so far.
\<close>

fun sendBatchLoop ::
  "world \<Rightarrow> client \<Rightarrow> batch_tx list \<Rightarrow> hex list \<Rightarrow> state \<Rightarrow> (error + hex list) \<times> state" where
  "sendBatchLoop w c [] hashes s = (Inr hashes, s)"
| "sendBatchLoop w c (tx # txs) hashes s =
     (case sendTransactionDirect w c (bt_to tx) (bt_data tx) (bt_value tx) s of
        (Inl e, s1) \<Rightarrow>
          (Inl (Error (''Batch failed at transaction '' @ string_of_nat (length hashes + 1)
                        @ '': '' @ error_to_string e)), s1)
      | (Inr hash, s1) \<Rightarrow> sendBatchLoop w c txs (hashes @ [hash]) s1)"

definition sendBatchTransactions ::
  "world \<Rightarrow> client \<Rightarrow> batch_tx list \<Rightarrow> state \<Rightarrow> (error + hex list) \<times> state" where
  "sendBatchTransactions w c transactions s = sendBatchLoop w c transactions [] s"

section \<open>Fund transfers\<close>

text \<open>
  \<open>TransferFundsParams\<close>; the session signer is the world's. An omitted
  \<open>isNativeToken\<close> is its default \<open>false\<close>.
\<close>

record TransferFundsParams =
  toAddress :: hex
  amount :: int
  tokenAddress :: "hex option"
  isNativeToken :: bool

text \<open>
  \<open>transferFunds\<close> (lines 423-471). In the ERC-20 branch \<open>encodeFunctionData\<close>
  runs before the session signer is called, outside any \<open>try\<close>: when it throws, the
  error leaves \<open>transferFunds\<close> and nothing is sent.
\<close>

definition transferFunds :: "world \<Rightarrow> TransferFundsParams \<Rightarrow> state \<Rightarrow> (error + hex) \<times> state" where
  "transferFunds w p s =
     (let native = signerSendTransaction w
                     \<lparr>tx_to = toAddress p, tx_data = Hex [], tx_value = Some (amount p),
                      tx_gas = None, tx_maxFeePerGas = None, tx_chain = None\<rparr> s
      in case tokenAddress p of
           None \<Rightarrow> native
         | Some token \<Rightarrow>
             if isNativeToken p then native
             else
               (case w_encodeFunctionData w (Erc20Transfer (toAddress p) (amount p)) of
                  Inl e \<Rightarrow> (Inl e, s)
                | Inr data \<Rightarrow>
                    signerSendTransaction w
                      \<lparr>tx_to = token, tx_data = data, tx_value = Some 0,
                       tx_gas = None, tx_maxFeePerGas = None, tx_chain = None\<rparr> s))"

text \<open>\<open>getBalance\<close> (lines 477-506).\<close>

definition getBalance :: "world \<Rightarrow> hex \<Rightarrow> hex option \<Rightarrow> state \<Rightarrow> (error + int) \<times> state" where
  "getBalance w address token s =
     (case token of
        None \<Rightarrow> (w_getBalance w (history s) address, perform (GetBalance address) s)
      | Some t \<Rightarrow> (w_readBalanceOf w (history s) t address, perform (ReadBalanceOf t address) s))"

text \<open>
  \<open>transferAllBalance\<close> (lines 544-580); \<open>signer\<close> is \<open>sessionSigner.address\<close>, and an
  omitted \<open>keepGasReserve\<close> is its default 0.
\<close>

definition transferAllBalance ::
  "world \<Rightarrow> hex \<Rightarrow> hex \<Rightarrow> hex option \<Rightarrow> int \<Rightarrow> state \<Rightarrow> (error + hex) \<times> state" where
  "transferAllBalance w signer to token keepGasReserve s =
     (case getBalance w signer token s of
        (Inl e, s1) \<Rightarrow> (Inl e, s1)
      | (Inr balance, s1) \<Rightarrow>
          if balance = 0 then (Inl (Error ''No balance to transfer''), s1)
          else if token = None \<and> keepGasReserve > 0 \<and> balance \<le> keepGasReserve
          then (Inl (Error ''Balance is less than or equal to gas reserve''), s1)
          else
            (let amountToTransfer =
                   (if token = None \<and> keepGasReserve > 0 then balance - keepGasReserve
                    else balance)
             in transferFunds w
                  \<lparr>toAddress = to, amount = amountToTransfer, tokenAddress = token,
                   isNativeToken = (token = None)\<rparr> s1))"

section \<open>AuthorizationSigner: the session signer's authorization signature\<close>

text \<open>\<open>String.prototype.toUpperCase\<close> on the ASCII letters of a method name.\<close>

definition upper_char :: "char \<Rightarrow> char" where
  "upper_char c =
     (case map_of (zip ''abcdefghijklmnopqrstuvwxyz'' ''ABCDEFGHIJKLMNOPQRSTUVWXYZ'') c of
        None \<Rightarrow> c
      | Some u \<Rightarrow> u)"

definition toUpperCase :: "string \<Rightarrow> string" where
  "toUpperCase s = map upper_char s"

text \<open>\<open>privateKey.replace(/\\n/g, '\n')\<close>: every backslash followed by \<open>n\<close> becomes a line feed.\<close>

fun unescape_newlines :: "string \<Rightarrow> string" where
  "unescape_newlines (a # b # cs) =
     (if a = CHR 0x5C \<and> b = CHR ''n'' then CHR 0x0A # unescape_newlines cs
      else a # unescape_newlines (b # cs))"
| "unescape_newlines cs = cs"

record PrivySessionSignerConfig =
  walletId :: string
  walletAddress :: hex
  privyAppId :: string
  privyAppSecret :: string
  sessionSignerPrivateKey :: string
  chainId :: "nat option"

text \<open>\<open>extractPrivateKey\<close> (privySessionSigner.ts, lines 531-539).\<close>

definition extractPrivateKey :: "string \<Rightarrow> error + string" where
  "extractPrivateKey key =
     (if key = [] then Inl (Error ''Session signer private key is required'') else Inr key)"

text \<open>
  \<open>generateAuthorizationSignature\<close> (lines 693-767). The whole body is inside
  \<open>try\<close>, and the \<open>catch\<close> returns \<open>undefined\<close>: the result is the signature or
  nothing, never an error. \<open>pemKey.replace('wallet-auth:', '')\<close> removes the prefix the
  branch has just tested for.
\<close>

definition generateAuthorizationSignature ::
  "world \<Rightarrow> PrivySessionSignerConfig \<Rightarrow> string \<Rightarrow> string \<Rightarrow> string \<Rightarrow> string option" where
  "generateAuthorizationSignature w cfg method url body =
     (case extractPrivateKey (sessionSignerPrivateKey cfg) of
        Inl e \<Rightarrow> None
      | Inr privateKey \<Rightarrow>
         (case w_JSON_parse w body of
            Inl e \<Rightarrow> None
          | Inr parsedBody \<Rightarrow>
             (let payload = JObject
                    [(''version'', JNumber 1),
                     (''method'', JString (toUpperCase method)),
                     (''url'', JString url),
                     (''body'', parsedBody),
                     (''headers'', JObject [(''privy-app-id'', JString (privyAppId cfg))])];
                  sortedPayload = sortObject payload;
                  payloadString = JSON_stringify sortedPayload;
                  pemKey = unescape_newlines privateKey
              in if startsWith pemKey ''wallet-auth:'' then
                   (case w_createPrivateKey w (drop (length ''wallet-auth:'') pemKey) of
                      Inl e \<Rightarrow> None
                    | Inr finalKey \<Rightarrow>
                       (case w_sign w finalKey payloadString of
                          Inl e \<Rightarrow> None
                        | Inr signature \<Rightarrow> Some signature))
                 else
                   (case w_sign w pemKey payloadString of
                      Inl e \<Rightarrow> None
                    | Inr signature \<Rightarrow> Some signature))))"

text \<open>\<open>BigInt(v).toString(16)\<close>.\<close>

function hex_digits :: "int \<Rightarrow> string" where
  "hex_digits n = (if n < 16 then [hex_char (nat n)]
                   else hex_digits (n div 16) @ [hex_char (nat (n mod 16))])"
  by pat_completeness auto
termination
  by (relation "measure nat") auto

declare hex_digits.simps [simp del]

definition toString16 :: "int \<Rightarrow> string" where
  "toString16 n = (if n < 0 then CHR ''-'' # hex_digits (- n) else hex_digits n)"

fun hex_string :: "hex \<Rightarrow> string" where
  "hex_string (Hex s) = ''0x'' @ s"

text \<open>
  Reading the response: whether a value is truthy, \<open>v.k\<close> (\<open>None\<close> is \<open>undefined\<close>),
  \<open>v?.k\<close>, and the first truthy operand of a chain of \<open>||\<close>.
\<close>

definition truthy :: "json \<Rightarrow> bool" where
  "truthy v = (case v of JNull \<Rightarrow> False | JBool b \<Rightarrow> b | JNumber n \<Rightarrow> n \<noteq> 0
                       | JString s \<Rightarrow> s \<noteq> [] | JArray xs \<Rightarrow> True | JObject obj \<Rightarrow> True)"

definition get_property :: "json \<Rightarrow> string \<Rightarrow> json option" where
  "get_property v k = (case v of JObject obj \<Rightarrow> map_of obj k | _ \<Rightarrow> None)"

definition optional_chain :: "json option \<Rightarrow> string \<Rightarrow> json option" where
  "optional_chain v k = (case v of None \<Rightarrow> None | Some JNull \<Rightarrow> None | Some d \<Rightarrow> get_property d k)"

definition first_truthy :: "json option list \<Rightarrow> json option" where
  "first_truthy vs = (case find (\<lambda>v. case v of None \<Rightarrow> False | Some x \<Rightarrow> truthy x) vs of
                         None \<Rightarrow> None | Some v \<Rightarrow> v)"

definition fetch :: "world \<Rightarrow> fetch_request \<Rightarrow> state \<Rightarrow> (error + fetch_response) \<times> state" where
  "fetch w req s = (w_fetch w (history s) req, perform (Fetch req) s)"

text \<open>
  The fields the constructor sets (lines 477-478): \<open>this.caip2\<close>, from
  \<open>config.chainId || 84532\<close>. \<open>valueHex\<close> is the value both ways of sending write
  (lines 580 and 622).
\<close>

definition caip2 :: "PrivySessionSignerConfig \<Rightarrow> string" where
  "caip2 cfg = ''eip155:'' @ string_of_nat (case chainId cfg of
                                              None \<Rightarrow> 84532
                                            | Some n \<Rightarrow> if n = 0 then 84532 else n)"

definition valueHex :: "signer_tx \<Rightarrow> string" where
  "valueHex tx = (case tx_value tx of
                    None \<Rightarrow> ''0x0''
                  | Some v \<Rightarrow> if v = 0 then ''0x0'' else ''0x'' @ toString16 v)"

text \<open>The request body of \<open>sendTransactionDirectAPI\<close> (lines 614-626).\<close>

definition requestBody :: "PrivySessionSignerConfig \<Rightarrow> signer_tx \<Rightarrow> json" where
  "requestBody cfg tx =
     JObject
       [(''method'', JString ''eth_sendTransaction''),
        (''caip2'', JString (caip2 cfg)),
        (''chain_type'', JString ''ethereum''),
        (''wallet_id'', JString (walletId cfg)),
        (''params'', JObject
           [(''transaction'', JObject
               ([(''to'', JString (hex_string (tx_to tx))),
                 (''value'', JString (valueHex tx))]
                @ (if tx_data tx \<noteq> Hex [] then [(''data'', JString (hex_string (tx_data tx)))]
                   else [])))])]"

text \<open>
  \<open>sendTransactionDirectAPI\<close> (lines 609-687). The value it returns is the JSON value
  found in the response, which the source casts to a hash. Reading a property of \<open>null\<close>
  throws inside the inner \<open>try\<close>, as does the missing hash; the \<open>catch\<close> rethrows
  both as \<open>Invalid response from Privy API\<close>.
\<close>

definition sendTransactionDirectAPI ::
  "world \<Rightarrow> PrivySessionSignerConfig \<Rightarrow> signer_tx \<Rightarrow> state \<Rightarrow> (error + json) \<times> state" where
  "sendTransactionDirectAPI w cfg tx s =
     (let url = ''https://api.privy.io/v1/rpc'';
          method = ''POST'';
          authSignature = generateAuthorizationSignature w cfg method url
                            (JSON_stringify (requestBody cfg tx));
          headers = [(''Content-Type'', ''application/json''),
                     (''privy-app-id'', privyAppId cfg),
                     (''privy-app-secret'', privyAppSecret cfg)]
                    @ (case authSignature of
                         None \<Rightarrow> []
                       | Some sig \<Rightarrow> if sig = [] then []
                                     else [(''privy-authorization-signature'', sig)])
      in case fetch w \<lparr>fr_url = url, fr_method = method, fr_headers = headers,
                       fr_body = JSON_stringify (requestBody cfg tx)\<rparr> s of
           (Inl e, s1) \<Rightarrow> (Inl e, s1)
         | (Inr response, s1) \<Rightarrow>
             if \<not> resp_ok response
             then (Inl (Error (''Privy transaction failed: '' @ resp_text response)), s1)
             else
               (case w_JSON_parse w (resp_text response) of
                  Inl e \<Rightarrow> (Inl (Error ''Invalid response from Privy API''), s1)
                | Inr result \<Rightarrow>
                   if result = JNull then (Inl (Error ''Invalid response from Privy API''), s1)
                   else
                     (case first_truthy
                             [get_property result ''result'',
                              get_property result ''hash'',
                              optional_chain (get_property result ''data'') ''hash'',
                              optional_chain (get_property result ''data'') ''txHash''] of
                        None \<Rightarrow> (Inl (Error ''Invalid response from Privy API''), s1)
                      | Some found \<Rightarrow> (Inr found, s1))))"

text \<open>
  \<open>initPrivyClient\<close> (lines 484-525): the dynamic import, then \<open>extractPrivateKey\<close>,
  then the constructor, which is handed the key; the \<open>catch\<close> logs and rethrows. The
  result is the client to be stored in \<open>this.privyClient\<close>, which stays unset when
  anything throws.
\<close>

definition initPrivyClient :: "world \<Rightarrow> PrivySessionSignerConfig \<Rightarrow> error + privy_client" where
  "initPrivyClient w cfg =
     (case w_import_server_auth w of
        Some e \<Rightarrow> Inl e
      | None \<Rightarrow>
         (case extractPrivateKey (sessionSignerPrivateKey cfg) of
            Inl e \<Rightarrow> Inl e
          | Inr privateKey \<Rightarrow>
              w_PrivyClient w (privyAppId cfg) (privyAppSecret cfg) privateKey))"

definition walletApiSendTransaction ::
  "world \<Rightarrow> wallet_request \<Rightarrow> state \<Rightarrow> (error + json) \<times> state" where
  "walletApiSendTransaction w req s =
     (w_walletApiSendTransaction w (history s) req, perform (WalletApiSendTransaction req) s)"

text \<open>
  \<open>PrivySessionSigner.sendTransaction\<close> (lines 555-604), with the field
  \<open>this.privyClient\<close> passed in and returned. The constructor starts
  \<open>initPrivyClient\<close> without awaiting it, so the field is set only once an
  initialization has succeeded. The initialization awaited here is outside the \<open>try\<close>:
  what it throws leaves \<open>sendTransaction\<close>. Everything thrown inside the \<open>try\<close>
  (a missing \<open>walletApi\<close>, a failing SDK call, reading \<open>hash\<close> of \<open>null\<close>)
  leads to \<open>sendTransactionDirectAPI\<close>. The value returned is \<open>result.hash\<close>, which
  may be \<open>undefined\<close> (\<open>None\<close>).
\<close>

definition privySendTransaction ::
  "world \<Rightarrow> PrivySessionSignerConfig \<Rightarrow> privy_client option \<Rightarrow> signer_tx \<Rightarrow> state
     \<Rightarrow> (error + json option) \<times> privy_client option \<times> state" where
  "privySendTransaction w cfg privyClient tx s =
     (case (case privyClient of Some pc \<Rightarrow> Inr pc | None \<Rightarrow> initPrivyClient w cfg) of
        Inl e \<Rightarrow> (Inl e, None, s)
      | Inr pc \<Rightarrow>
         (let fallback = (\<lambda>s1. case sendTransactionDirectAPI w cfg tx s1 of
                                  (Inl e, s2) \<Rightarrow> (Inl e, Some pc, s2)
                                | (Inr found, s2) \<Rightarrow> (Inr (Some found), Some pc, s2))
          in if \<not> has_walletApi pc \<or> \<not> has_ethereum pc then fallback s
             else
               (case walletApiSendTransaction w
                       \<lparr>wr_walletId = walletId cfg, wr_to = tx_to tx, wr_value = valueHex tx,
                        wr_data = (if tx_data tx \<noteq> Hex [] then Some (tx_data tx) else None),
                        wr_caip2 = caip2 cfg\<rparr> s of
                  (Inl e, s1) \<Rightarrow> fallback s1
                | (Inr result, s1) \<Rightarrow>
                    if result = JNull then fallback s1
                    else (Inr (get_property result ''hash''), Some pc, s1))))"

section \<open>Reference formulas, answers of the world, and fixtures\<close>

text \<open>The formula of the specification, with \<open>??\<close> read as "the override when present".\<close>

definition spec_maxFeePerGas :: "int \<Rightarrow> int \<Rightarrow> int option \<Rightarrow> int option \<Rightarrow> int \<Rightarrow> int" where
  "spec_maxFeePerGas b p mo po m =
     (case mo of None \<Rightarrow> b | Some x \<Rightarrow> x) + (case po of None \<Rightarrow> p | Some x \<Rightarrow> x) * max 0 (m - 1)"

text \<open>\<open>a || b\<close> on integers: \<open>b\<close> when \<open>a\<close> is absent or 0.\<close>

definition truthy_or :: "int option \<Rightarrow> int \<Rightarrow> int" where
  "truthy_or a b = (case a of None \<Rightarrow> b | Some x \<Rightarrow> if x = 0 then b else x)"

definition int_config :: "AcpContractConfig \<Rightarrow> int option \<Rightarrow> int option \<Rightarrow> int option \<Rightarrow> AcpContractConfig" where
  "int_config cfg mo po m =
     cfg\<lparr>priorityFeeMultiplier := map_option of_int m,
         cfg_maxFeePerGas := map_option of_int mo,
         cfg_maxPriorityFeePerGas := map_option of_int po\<rparr>"

text \<open>
  A parser for the fixtures, in place of \<open>JSON.parse\<close>: it knows the listed documents,
  each under its \<open>JSON.stringify\<close> text.
\<close>

definition parse_known :: "json list \<Rightarrow> string \<Rightarrow> error + json" where
  "parse_known docs s =
     (case find (\<lambda>v. JSON_stringify v = s) docs of
        None \<Rightarrow> Inl (JsError ''SyntaxError'' ''Unexpected token'')
      | Some v \<Rightarrow> Inr v)"

text \<open>The value of a hexadecimal digit.\<close>

definition hex_digit :: "char \<Rightarrow> nat option" where
  "hex_digit c =
     (if CHR ''0'' \<le> c \<and> c \<le> CHR ''9'' then Some (of_char c - of_char CHR ''0'')
      else if CHR ''a'' \<le> c \<and> c \<le> CHR ''f'' then Some (of_char c - of_char CHR ''a'' + 10)
      else if CHR ''A'' \<le> c \<and> c \<le> CHR ''F'' then Some (of_char c - of_char CHR ''A'' + 10)
      else None)"

text \<open>
  A contract encoder for the fixtures, in place of viem's \<open>encodeFunctionData\<close>. It
  checks its arguments as viem does: an address is \<open>0x\<close> and 40 hexadecimal digits (the
  fixtures write them in lower case, which has no checksum), a \<open>uint256\<close> lies between 0
  and \<open>2^256 - 1\<close>. For the encoded bytes it gives the selector of \<open>transfer\<close>, and a
  tag for \<open>createJob\<close>.
\<close>

definition is_address :: "string \<Rightarrow> bool" where
  "is_address a = (length a = 42 \<and> startsWith a ''0x'' \<and> list_all (\<lambda>c. hex_digit c \<noteq> None) (drop 2 a))"

definition is_uint256 :: "int \<Rightarrow> bool" where
  "is_uint256 n = (0 \<le> n \<and> n < 2 ^ 256)"

definition invalid_address :: error where
  "invalid_address = JsError ''InvalidAddressError'' ''Address is invalid''"

definition integer_out_of_range :: error where
  "integer_out_of_range = JsError ''IntegerOutOfRangeError'' ''Number is not in safe 256-bit unsigned integer range''"

fun checking_encoder :: "contract_call \<Rightarrow> error + hex" where
  "checking_encoder (Erc20Transfer to amt) =
     (if \<not> is_address (hex_string to) then Inl invalid_address
      else if \<not> is_uint256 amt then Inl integer_out_of_range
      else Inr (Hex ''a9059cbb''))"
| "checking_encoder (CreateJob provider evaluator expiredAt) =
     (if \<not> is_address provider \<or> \<not> is_address evaluator then Inl invalid_address
      else if \<not> is_uint256 expiredAt then Inl integer_out_of_range
      else Inr (Hex ''c0de''))"

declare checking_encoder.simps [simp del]

text \<open>Addresses of the fixtures: a recipient, a provider, an evaluator and a token.\<close>

definition bob :: hex where
  "bob = Hex ''00000000000000000000000000000000000000b0''"

definition provider_a :: string where
  "provider_a = ''0x000000000000000000000000000000000000000a''"

definition evaluator_b :: string where
  "evaluator_b = ''0x000000000000000000000000000000000000000b''"

definition token_c :: hex where
  "token_c = Hex ''0000000000000000000000000000000000070ce0''"

definition quiet_world :: world where
  "quiet_world =
     \<lparr>w_estimateFeesPerGas = (\<lambda>_. Inr (100, 7)),
      w_estimateGas = (\<lambda>_ _. Inr 21000),
      w_signerSendTransaction = (\<lambda>_ _. Inr (Hex ''d1'')),
      w_smartAccountSendTransaction = (\<lambda>_ _. Inl (Error ''paymaster rejected'')),
      w_waitForTransactionReceipt = (\<lambda>_ _. Inr \<lparr>receipt_status = ''success'', receipt_logs = []\<rparr>),
      w_getTransactionReceipt = (\<lambda>_ _. Inr \<lparr>receipt_status = ''success'', receipt_logs = []\<rparr>),
      w_getBalance = (\<lambda>_ _. Inr 0),
      w_readBalanceOf = (\<lambda>_ _ _. Inr 0),
      w_fromHexNumber = (\<lambda>_. Inr 0),
      w_encodeFunctionData = checking_encoder,
      w_fetch = (\<lambda>_ _. Inr \<lparr>resp_ok = False, resp_text = ''unauthorized''\<rparr>),
      w_JSON_parse = parse_known [],
      w_createPrivateKey = (\<lambda>_. Inl (Error ''error:1E08010C:DECODER routines::unsupported'')),
      w_sign = (\<lambda>_ _. Inl (Error ''error:1E08010C:DECODER routines::unsupported'')),
      w_import_server_auth = None,
      w_PrivyClient = (\<lambda>appId appSecret key.
         if key = ''wallet-auth:MIGHAgEAMBMGByqGSM49AgEGCCqGSM49AwEHBG0wawIBAQQg''
         then Inr \<lparr>has_walletApi = True, has_ethereum = True\<rparr>
         else Inl (Error ''Invalid authorization private key'')),
      w_walletApiSendTransaction = (\<lambda>_ _. Inl (Error ''fetch failed''))\<rparr>"

definition base_config :: AcpContractConfig where
  "base_config =
     \<lparr>chain = 84532,
      contractAddress = Hex ''8Db6B1c839Fc8f6bd35777E194677B67b4D51928'',
      virtualsTokenAddress = Hex ''bfAB80ccc15DF6fb7185f9498d6039317331846a'',
      priorityFeeMultiplier = Some 2,
      cfg_maxFeePerGas = Some 20000000,
      cfg_maxPriorityFeePerGas = Some 21000000\<rparr>"

definition start :: state where
  "start = \<lparr>history = [], pendingNonce = 0\<rparr>"

text \<open>The transactions handed to the session signer, in order: the direct broadcast attempts.\<close>

fun direct_broadcasts :: "call list \<Rightarrow> signer_tx list" where
  "direct_broadcasts [] = []"
| "direct_broadcasts (SignerSendTransaction tx # cs) = tx # direct_broadcasts cs"
| "direct_broadcasts (c # cs) = direct_broadcasts cs"

text \<open>
  \<open>sendTransaction\<close>, started in \<open>s\<close>, reaches its regular flow in \<open>sf\<close>: at once
  when the direct path is forced or there is no sponsorship, otherwise after a sponsored
  attempt that returned no hash or whose receipt is not a success.
\<close>

definition enters_direct_path ::
  "world \<Rightarrow> client \<Rightarrow> hex \<Rightarrow> hex \<Rightarrow> int option \<Rightarrow> bool \<Rightarrow> state \<Rightarrow> state \<Rightarrow> bool" where
  "enters_direct_path w c to data val forceEOA s sf =
     (if \<not> forceEOA \<and> sponsorship c then
        (case sendSponsoredTransaction w (sponsorship c) to data val s of
           (None, s1) \<Rightarrow> sf = s1
         | (Some h, s1) \<Rightarrow>
             (case waitForTransactionReceipt w h s1 of
                (Inl e, s2) \<Rightarrow> False
              | (Inr rc, s2) \<Rightarrow> receipt_status rc \<noteq> ''success'' \<and> sf = s2))
      else sf = s)"

text \<open>
  What the world has to answer for a sponsored attempt to fail, with the history \<open>pre\<close>
  when the submission is made: the submission is rejected (and so is the one retry, after a
  nonce conflict), or a hash comes back, at once or from the retry, and its receipt has a
  status other than success. The last two arguments are the history when the attempt has
  failed and the number of hashes the smart account has handed out.
\<close>

inductive sponsorship_fails ::
  "world \<Rightarrow> call list \<Rightarrow> sponsored_tx \<Rightarrow> call list \<Rightarrow> nat \<Rightarrow> bool"
  for w :: world where
  rejected:
    "w_smartAccountSendTransaction w pre sp = Inl e \<Longrightarrow>
     \<not> is_nonce_error e \<Longrightarrow>
     sponsorship_fails w pre sp (pre @ [SmartAccountSendTransaction sp]) 0"
| retry_rejected:
    "w_smartAccountSendTransaction w pre sp = Inl e \<Longrightarrow>
     is_nonce_error e \<Longrightarrow>
     w_smartAccountSendTransaction w
        (pre @ [SmartAccountSendTransaction sp, SetTimeout 2000]) sp = Inl e2 \<Longrightarrow>
     sponsorship_fails w pre sp
        (pre @ [SmartAccountSendTransaction sp, SetTimeout 2000, SmartAccountSendTransaction sp]) 0"
| receipt_not_success:
    "w_smartAccountSendTransaction w pre sp = Inr h \<Longrightarrow>
     w_waitForTransactionReceipt w (pre @ [SmartAccountSendTransaction sp]) h = Inr rc \<Longrightarrow>
     receipt_status rc \<noteq> ''success'' \<Longrightarrow>
     sponsorship_fails w pre sp
        (pre @ [SmartAccountSendTransaction sp, WaitForTransactionReceipt h]) 1"
| retry_receipt_not_success:
    "w_smartAccountSendTransaction w pre sp = Inl e \<Longrightarrow>
     is_nonce_error e \<Longrightarrow>
     w_smartAccountSendTransaction w
        (pre @ [SmartAccountSendTransaction sp, SetTimeout 2000]) sp = Inr h \<Longrightarrow>
     w_waitForTransactionReceipt w
        (pre @ [SmartAccountSendTransaction sp, SetTimeout 2000, SmartAccountSendTransaction sp]) h
       = Inr rc \<Longrightarrow>
     receipt_status rc \<noteq> ''success'' \<Longrightarrow>
     sponsorship_fails w pre sp
        (pre @ [SmartAccountSendTransaction sp, SetTimeout 2000, SmartAccountSendTransaction sp,
                WaitForTransactionReceipt h]) 1"

definition sponsored_client :: client where
  "sponsored_client = \<lparr>client_config = base_config, signerAddress = Hex ''51'', sponsorship = True\<rparr>"

definition reverting_world :: world where
  "reverting_world = quiet_world\<lparr>w_waitForTransactionReceipt :=
      (\<lambda>_ _. Inr \<lparr>receipt_status = ''reverted'', receipt_logs = []\<rparr>)\<rparr>"

definition nonce_conflict_world :: world where
  "nonce_conflict_world = quiet_world\<lparr>w_smartAccountSendTransaction :=
      (\<lambda>h tx. if SetTimeout 2000 \<in> set h then Inr (Hex ''5a'')
               else Inl (Error ''AA25 invalid account nonce''))\<rparr>"

definition retry_reverted_world :: world where
  "retry_reverted_world = nonce_conflict_world\<lparr>w_waitForTransactionReceipt :=
      (\<lambda>_ h. Inr \<lparr>receipt_status = (if h = Hex ''5a'' then ''reverted'' else ''success''),
                    receipt_logs = []\<rparr>)\<rparr>"

text \<open>
  A decoder for the fixtures, in place of viem's \<open>fromHex(data, "number")\<close>: the value of
  the hexadecimal digits.
\<close>
fun hex_digits_value :: "nat \<Rightarrow> string \<Rightarrow> nat option" where
  "hex_digits_value acc [] = Some acc"
| "hex_digits_value acc (c # cs) =
     (case hex_digit c of None \<Rightarrow> None | Some d \<Rightarrow> hex_digits_value (16 * acc + d) cs)"

fun hexToNumber :: "hex \<Rightarrow> error + int" where
  "hexToNumber (Hex s) =
     (if s = [] then Inl (JsError ''SyntaxError'' ''Cannot convert 0x to a BigInt'')
      else case hex_digits_value 0 s of
             None \<Rightarrow> Inl (JsError ''SyntaxError'' ''Cannot convert to a BigInt'')
           | Some n \<Rightarrow> Inr (int n))"

definition job_receipt :: receipt where
  "job_receipt =
     \<lparr>receipt_status = ''success'',
      receipt_logs =
        [\<lparr>log_address = Hex ''70cE'',
          log_data = Hex ''0000000000000000000000000000000000000000000000000000000000000007''\<rparr>,
         \<lparr>log_address = Hex ''acp1'',
          log_data = Hex ''000000000000000000000000000000000000000000000000000000000000002a''\<rparr>]\<rparr>"

definition job_world :: world where
  "job_world = quiet_world\<lparr>w_getTransactionReceipt := (\<lambda>_ _. Inr job_receipt),
                            w_fromHexNumber := hexToNumber\<rparr>"

definition eoa_client :: client where
  "eoa_client = \<lparr>client_config = base_config\<lparr>contractAddress := Hex ''AcP1''\<rparr>,
                  signerAddress = Hex ''51'', sponsorship = False\<rparr>"

text \<open>
  The lane of a signing authority: what the history shows of submissions to the session
  signer and of waits for a mined receipt.
\<close>

datatype lane_event = Submitted batch_tx | Settled hex

fun lane :: "call list \<Rightarrow> lane_event list" where
  "lane [] = []"
| "lane (SignerSendTransaction tx # cs) =
     Submitted \<lparr>bt_to = tx_to tx, bt_data = tx_data tx, bt_value = tx_value tx\<rparr> # lane cs"
| "lane (WaitForTransactionReceipt h # cs) = Settled h # lane cs"
| "lane (c # cs) = lane cs"

definition settled_lane :: "batch_tx list \<Rightarrow> hex list \<Rightarrow> lane_event list" where
  "settled_lane txs hs = concat (map (\<lambda>(t, h). [Submitted t, Settled h]) (zip txs hs))"

definition failed_tail :: "batch_tx \<Rightarrow> lane_event list \<Rightarrow> bool" where
  "failed_tail t tail =
     (tail = [] \<or> tail = [Submitted t] \<or> (\<exists>h. tail = [Submitted t, Settled h]))"

definition batch_error :: "nat \<Rightarrow> error \<Rightarrow> error" where
  "batch_error n e =
     Error (''Batch failed at transaction '' @ string_of_nat n @ '': '' @ error_to_string e)"

text \<open>
  The two arguments the regular flow builds for a request: the one of \<open>estimateGas\<close>
  and the one of the session signer.
\<close>

definition direct_request :: "client \<Rightarrow> batch_tx \<Rightarrow> int \<Rightarrow> gas_request" where
  "direct_request c t fee =
     \<lparr>gr_account = signerAddress c, gr_to = bt_to t, gr_data = bt_data t, gr_value = bt_value t,
      gr_maxFeePerGas = fee\<rparr>"

definition direct_tx :: "client \<Rightarrow> batch_tx \<Rightarrow> int \<Rightarrow> int \<Rightarrow> signer_tx" where
  "direct_tx c t fee gas =
     \<lparr>tx_to = bt_to t, tx_data = bt_data t, tx_value = bt_value t, tx_gas = Some gas,
      tx_maxFeePerGas = Some fee, tx_chain = Some (chain (client_config c))\<rparr>"

text \<open>
  What the world has to answer for a run of requests to settle one after the other, and the
  history that results: started with the history \<open>h\<close>, every request of the list, in
  order, gets its fee, its gas estimate, a hash from the session signer (the hashes of the
  run, in order) and a receipt with the status success.
\<close>

inductive settles_in_order ::
  "world \<Rightarrow> client \<Rightarrow> call list \<Rightarrow> batch_tx list \<Rightarrow> hex list \<Rightarrow> call list \<Rightarrow> bool"
  for w :: world and c :: client where
  all_settled: "settles_in_order w c h [] [] h"
| next_settled:
    "w_estimateFeesPerGas w h = Inr (b, p) \<Longrightarrow>
     finalMaxFeePerGas (client_config c) b p = Inr fee \<Longrightarrow>
     req = direct_request c t fee \<Longrightarrow>
     w_estimateGas w (h @ [EstimateFeesPerGas]) req = Inr gas \<Longrightarrow>
     tx = direct_tx c t fee gas \<Longrightarrow>
     w_signerSendTransaction w (h @ [EstimateFeesPerGas, EstimateGas req]) tx = Inr hash \<Longrightarrow>
     w_waitForTransactionReceipt w
        (h @ [EstimateFeesPerGas, EstimateGas req, SignerSendTransaction tx]) hash = Inr rc \<Longrightarrow>
     receipt_status rc = ''success'' \<Longrightarrow>
     settles_in_order w c
        (h @ [EstimateFeesPerGas, EstimateGas req, SignerSendTransaction tx,
              WaitForTransactionReceipt hash]) txs hashes h' \<Longrightarrow>
     settles_in_order w c h (t # txs) (hash # hashes) h'"

text \<open>
  What the world has to answer for one request to fail with the error \<open>e\<close>, started
  with the history \<open>h\<close>: one of its four calls throws, or the fee cannot be computed,
  or the receipt has a status other than success. The last argument is the history when the
  error is thrown.
\<close>

inductive dispatch_fails ::
  "world \<Rightarrow> client \<Rightarrow> call list \<Rightarrow> batch_tx \<Rightarrow> error \<Rightarrow> call list \<Rightarrow> bool"
  for w :: world and c :: client where
  fee_query_throws:
    "w_estimateFeesPerGas w h = Inl e \<Longrightarrow>
     dispatch_fails w c h t e (h @ [EstimateFeesPerGas])"
| fee_value_throws:
    "w_estimateFeesPerGas w h = Inr (b, p) \<Longrightarrow>
     finalMaxFeePerGas (client_config c) b p = Inl e \<Longrightarrow>
     dispatch_fails w c h t e (h @ [EstimateFeesPerGas])"
| gas_estimate_throws:
    "w_estimateFeesPerGas w h = Inr (b, p) \<Longrightarrow>
     finalMaxFeePerGas (client_config c) b p = Inr fee \<Longrightarrow>
     req = direct_request c t fee \<Longrightarrow>
     w_estimateGas w (h @ [EstimateFeesPerGas]) req = Inl e \<Longrightarrow>
     dispatch_fails w c h t e (h @ [EstimateFeesPerGas, EstimateGas req])"
| signer_throws:
    "w_estimateFeesPerGas w h = Inr (b, p) \<Longrightarrow>
     finalMaxFeePerGas (client_config c) b p = Inr fee \<Longrightarrow>
     req = direct_request c t fee \<Longrightarrow>
     w_estimateGas w (h @ [EstimateFeesPerGas]) req = Inr gas \<Longrightarrow>
     tx = direct_tx c t fee gas \<Longrightarrow>
     w_signerSendTransaction w (h @ [EstimateFeesPerGas, EstimateGas req]) tx = Inl e \<Longrightarrow>
     dispatch_fails w c h t e (h @ [EstimateFeesPerGas, EstimateGas req, SignerSendTransaction tx])"
| receipt_wait_throws:
    "w_estimateFeesPerGas w h = Inr (b, p) \<Longrightarrow>
     finalMaxFeePerGas (client_config c) b p = Inr fee \<Longrightarrow>
     req = direct_request c t fee \<Longrightarrow>
     w_estimateGas w (h @ [EstimateFeesPerGas]) req = Inr gas \<Longrightarrow>
     tx = direct_tx c t fee gas \<Longrightarrow>
     w_signerSendTransaction w (h @ [EstimateFeesPerGas, EstimateGas req]) tx = Inr hash \<Longrightarrow>
     w_waitForTransactionReceipt w
        (h @ [EstimateFeesPerGas, EstimateGas req, SignerSendTransaction tx]) hash = Inl e \<Longrightarrow>
     dispatch_fails w c h t e
        (h @ [EstimateFeesPerGas, EstimateGas req, SignerSendTransaction tx,
              WaitForTransactionReceipt hash])"
| receipt_not_success:
    "w_estimateFeesPerGas w h = Inr (b, p) \<Longrightarrow>
     finalMaxFeePerGas (client_config c) b p = Inr fee \<Longrightarrow>
     req = direct_request c t fee \<Longrightarrow>
     w_estimateGas w (h @ [EstimateFeesPerGas]) req = Inr gas \<Longrightarrow>
     tx = direct_tx c t fee gas \<Longrightarrow>
     w_signerSendTransaction w (h @ [EstimateFeesPerGas, EstimateGas req]) tx = Inr hash \<Longrightarrow>
     w_waitForTransactionReceipt w
        (h @ [EstimateFeesPerGas, EstimateGas req, SignerSendTransaction tx]) hash = Inr rc \<Longrightarrow>
     receipt_status rc \<noteq> ''success'' \<Longrightarrow>
     dispatch_fails w c h t (Error ''Transaction failed'')
        (h @ [EstimateFeesPerGas, EstimateGas req, SignerSendTransaction tx,
              WaitForTransactionReceipt hash])"

definition second_reverts_world :: world where
  "second_reverts_world = quiet_world\<lparr>w_waitForTransactionReceipt :=
      (\<lambda>h _. Inr \<lparr>receipt_status = (if WaitForTransactionReceipt (Hex ''d1'') \<in> set h
                                       then ''reverted'' else ''success''),
                    receipt_logs = []\<rparr>)\<rparr>"

definition three_requests :: "batch_tx list" where
  "three_requests =
     [\<lparr>bt_to = Hex ''c0'', bt_data = Hex ''01'', bt_value = None\<rparr>,
      \<lparr>bt_to = Hex ''c0'', bt_data = Hex ''02'', bt_value = None\<rparr>,
      \<lparr>bt_to = Hex ''c0'', bt_data = Hex ''03'', bt_value = Some 9\<rparr>]"

definition funded_world :: "int \<Rightarrow> world" where
  "funded_world b = quiet_world\<lparr>w_getBalance := (\<lambda>_ _. Inr b), w_readBalanceOf := (\<lambda>_ _ _. Inr b)\<rparr>"

definition garbage_signer :: PrivySessionSignerConfig where
  "garbage_signer =
     \<lparr>walletId = ''w1'', walletAddress = Hex ''51'', privyAppId = ''app'', privyAppSecret = ''secret'',
      sessionSignerPrivateKey = ''not a key'', chainId = None\<rparr>"

definition transfer_tx :: signer_tx where
  "transfer_tx = \<lparr>tx_to = Hex ''b0b'', tx_data = Hex [], tx_value = Some 255, tx_gas = None,
                   tx_maxFeePerGas = None, tx_chain = None\<rparr>"


definition keyed_signer :: PrivySessionSignerConfig where
  "keyed_signer = garbage_signer\<lparr>sessionSignerPrivateKey :=
     ''wallet-auth:MIGHAgEAMBMGByqGSM49AgEGCCqGSM49AwEHBG0wawIBAQQg''\<rparr>"

definition payload_a :: json where
  "payload_a = JObject
     [(''version'', JNumber 1),
      (''method'', JString ''POST''),
      (''body'', JObject [(''to'', JString ''0xb0b''), (''10'', JNull), (''9'', JArray [JBool True])])]"

definition payload_b :: json where
  "payload_b = JObject
     [(''body'', JObject [(''9'', JArray [JBool True]), (''to'', JString ''0xb0b''), (''10'', JNull)]),
      (''method'', JString ''POST''),
      (''version'', JNumber 1)]"

text \<open>The step of the \<open>forEach\<close> loop of \<open>sortObject\<close> on an object.\<close>

definition sorted_step :: "(string \<times> json) list \<Rightarrow> (string \<times> json) list \<Rightarrow> string \<Rightarrow> (string \<times> json) list" where
  "sorted_step obj = (\<lambda>sorted key. case map_of obj key of
                                      None \<Rightarrow> sorted
                                    | Some v \<Rightarrow> set_property sorted key (sortObject v))"

section \<open>The fee formula (claim C1)\<close>

lemma round_half_even_of_int [simp]: "round_half_even (of_int j) = j"
  by (simp add: round_half_even_def)

lemma binary_exponent_of_int:
  assumes "n \<noteq> 0"
  shows "binary_exponent (of_int n) = bitlen \<bar>n\<bar> - 1"
    and "0 \<le> bitlen \<bar>n\<bar> - 1"
    and "2 ^ nat (bitlen \<bar>n\<bar> - 1) \<le> \<bar>n\<bar>"
proof -
  have pos: "0 < \<bar>n\<bar>" using assms by simp
  from bitlen_bounds [OF pos] show le: "2 ^ nat (bitlen \<bar>n\<bar> - 1) \<le> \<bar>n\<bar>" by simp
  show nonneg: "0 \<le> bitlen \<bar>n\<bar> - 1"
  proof (rule ccontr)
    assume "\<not> 0 \<le> bitlen \<bar>n\<bar> - 1"
    then have "nat (bitlen \<bar>n\<bar>) = 0" by simp
    with bitlen_bounds [OF pos] have "\<bar>n\<bar> < 1" by simp
    with pos show False by simp
  qed
  have q: "quotient_of \<bar>rat_of_int n\<bar> = (\<bar>n\<bar>, 1)"
    using quotient_of_rat_of_int [of "\<bar>n\<bar>"] by simp
  have one: "bitlen 1 = 1" by (simp add: bitlen_def compute_floorlog)
  have "pow2 (bitlen \<bar>n\<bar> - 1) = of_int (2 ^ nat (bitlen \<bar>n\<bar> - 1))"
    using nonneg by (simp add: pow2_def)
  also have "\<dots> \<le> of_int \<bar>n\<bar>" using le by (subst of_int_le_iff)
  finally have "pow2 (bitlen \<bar>n\<bar> - 1) \<le> \<bar>rat_of_int n\<bar>" by simp
  then show "binary_exponent (of_int n) = bitlen \<bar>n\<bar> - 1"
    by (simp add: binary_exponent_def q one)
qed

text \<open>The integers up to \<open>2^53\<close> in magnitude are doubles: rounding leaves them unchanged.\<close>

lemma round_double_of_int:
  assumes "\<bar>n\<bar> \<le> 2 ^ 53"
  shows "round_double (of_int n) = of_int n"
proof (cases "n = 0")
  case True
  then show ?thesis by (simp add: round_double_def)
next
  case False
  define e where "e = bitlen \<bar>n\<bar> - 1"
  have be: "binary_exponent (of_int n) = e" and e0: "0 \<le> e" and le: "2 ^ nat e \<le> \<bar>n\<bar>"
    using binary_exponent_of_int [OF False] by (simp_all add: e_def)
  have "(2::int) ^ nat e \<le> 2 ^ 53" using le assms by (rule order_trans)
  then have "nat e \<le> 53" by (rule power_le_imp_le_exp [rotated]) simp
  then have e53: "e \<le> 53" by simp
  show ?thesis
  proof (cases "e \<le> 52")
    case True
    define j where "j = n * 2 ^ nat (52 - e)"
    have q: "pow2 (max (e - 52) (- 1074)) = 1 / 2 ^ nat (52 - e)"
      using True e0 by (cases "e = 52") (simp_all add: pow2_def max_def)
    have "rat_of_int n / (1 / 2 ^ nat (52 - e)) = of_int j"
      by (simp add: j_def)
    then have "round_double (of_int n) = of_int j * (1 / 2 ^ nat (52 - e))"
      using False by (simp add: round_double_def be q Let_def del: of_int_mult of_int_power)
    also have "\<dots> = of_int n" by (simp add: j_def)
    finally show ?thesis .
  next
    case False
    with e53 have e: "e = 53" by simp
    with le assms have abs: "\<bar>n\<bar> = 2 ^ 53" by simp
    then have "n = 2 ^ 53 \<or> n = - (2 ^ 53)" by linarith
    then show ?thesis
      by (auto simp: round_double_def be e pow2_def Let_def round_half_even_def)
  qed
qed

text \<open>Rounding keeps the sign: what is not positive does not become positive.\<close>

lemma round_double_nonpos:
  assumes "x \<le> 0"
  shows "round_double x \<le> 0"
proof (cases "x = 0")
  case True
  then show ?thesis by (simp add: round_double_def)
next
  case False
  define q where "q = pow2 (max (binary_exponent x - 52) (- 1074))"
  have q: "0 < q" by (simp add: q_def pow2_def)
  have "x / q < 0" using assms False q by (simp add: divide_neg_pos)
  then have "\<lfloor>x / q\<rfloor> < 0" by linarith
  then have "\<lfloor>x / q\<rfloor> \<le> 0" and "\<lfloor>x / q\<rfloor> + 1 \<le> 0" by linarith+
  then have "round_half_even (x / q) \<le> 0" by (simp add: round_half_even_def Let_def del: floor_less_zero zero_less_floor floor_less_iff)
  then have "rat_of_int (round_half_even (x / q)) * q \<le> 0"
    using q by (simp add: mult_le_0_iff)
  then show ?thesis using False by (simp add: round_double_def q_def Let_def)
qed

lemma number_minus_one: "number_minus 2 1 = 1"
  using round_double_of_int [of 1] by (simp add: number_minus_def)

text \<open>
  Beyond \<open>2^53\<close> the subtraction rounds: with the multiplier \<open>2^53 + 2\<close> the
  difference \<open>2^53 + 1\<close> is not a double, and the priority fee is multiplied by
  \<open>2^53\<close>.
\<close>

lemma round_double_beyond_precision: "round_double 9007199254740993 = 9007199254740992"
  by code_simp

lemma finalMaxFeePerGas_beyond_precision:
  "finalMaxFeePerGas (base_config\<lparr>priorityFeeMultiplier := Some 9007199254740994\<rparr>) 100 7
     = Inr (20000000 + 21000000 * 9007199254740992)"
  using round_double_beyond_precision
  by (simp add: finalMaxFeePerGas_def number_minus_one base_config_def or_else_def number_or_def number_minus_def)

lemma BigInt_of_int: "BigInt (Number (of_int n)) = Inr n"
  by simp

lemma number_or_of_int: "number_or (map_option of_int a) (of_int d) = of_int (truthy_or a d)"
  by (cases a) (simp_all add: number_or_def truthy_or_def)

lemma or_else_of_int:
  "BigInt (or_else (map_option of_int a) (Bigint b)) = Inr (truthy_or a b)"
  by (cases a) (simp_all add: or_else_def truthy_or_def)

lemma multiplier_of_int:
  assumes "truthy_or m 2 \<le> 2 ^ 53"
  shows "BigInt (Number (max 0 (number_minus (number_or (map_option of_int m) 2) 1)))
           = Inr (max 0 (truthy_or m 2 - 1))"
proof -
  define k where "k = truthy_or m 2"
  have n: "number_or (map_option of_int m) 2 = rat_of_int k"
    using number_or_of_int [of m 2] by (simp add: k_def)
  have "max 0 (round_double (rat_of_int (k - 1))) = rat_of_int (max 0 (k - 1))"
  proof (cases "k \<le> 0")
    case True
    then have "rat_of_int (k - 1) \<le> 0" by simp
    then have "round_double (rat_of_int (k - 1)) \<le> 0" by (rule round_double_nonpos)
    with True show ?thesis by (simp add: max_def)
  next
    case False
    with assms have "\<bar>k - 1\<bar> \<le> 2 ^ 53" by (simp add: k_def)
    then have "round_double (rat_of_int (k - 1)) = rat_of_int (k - 1)"
      by (rule round_double_of_int)
    then show ?thesis by (simp add: max_def)
  qed
  then have "max 0 (number_minus (number_or (map_option of_int m) 2) 1)
               = rat_of_int (max 0 (k - 1))"
    by (simp add: number_minus_def n)
  then show ?thesis
    unfolding k_def by (simp only: BigInt_of_int)
qed

lemma calculateGasFees_int_config:
  assumes "w_estimateFeesPerGas w (history s) = Inr (b, p)"
    and "truthy_or m 2 \<le> 2 ^ 53"
  shows "calculateGasFees w (int_config cfg mo po m) s
           = (Inr (truthy_or mo b + truthy_or po p * max 0 (truthy_or m 2 - 1)),
              perform EstimateFeesPerGas s)"
  using assms(1)
  by (simp add: calculateGasFees_def finalMaxFeePerGas_def number_minus_one estimateFeesPerGas_def int_config_def
      or_else_of_int multiplier_of_int [OF assms(2)] del: BigInt.simps)

text \<open>
  Claim C1 as stated fails: with the shipped overrides and a configured multiplier of 0 the
  specification's formula gives the override max fee alone (20000000), while the code
  replaces the multiplier 0 by its default 2 and adds the override priority fee once
  (20000000 + 21000000).
\<close>

theorem calculateGasFees_zero_multiplier_counterexample:
  "w_estimateFeesPerGas quiet_world (history start) = Inr (100, 7)
   \<and> spec_maxFeePerGas 100 7 (Some 20000000) (Some 21000000) 0 = 20000000
   \<and> fst (calculateGasFees quiet_world (base_config\<lparr>priorityFeeMultiplier := Some 0\<rparr>) start)
       = Inr 41000000"
  by (simp add: calculateGasFees_def finalMaxFeePerGas_def number_minus_one estimateFeesPerGas_def quiet_world_def base_config_def
      or_else_def number_or_def spec_maxFeePerGas_def)

text \<open>
  Claim C1, amended: for every live base fee \<open>b\<close>, live priority fee \<open>p\<close> and
  integer-valued configured override max fee \<open>mo\<close>, override priority fee \<open>po\<close> and
  multiplier \<open>m\<close> (JavaScript numbers, each possibly absent) with \<open>m\<close> at most
  \<open>2^53\<close>, where the subtraction \<open>m - 1\<close> on doubles is exact,
  \<open>calculateGasFees\<close> makes one fee query and returns
  \<open>(mo || b) + (po || p) * max(0, (m || 2) - 1)\<close> in exact integer arithmetic, where
  \<open>x || y\<close> is \<open>y\<close> when \<open>x\<close> is absent or 0; in particular, when
  \<open>m = 1\<close> the result is \<open>mo || b\<close>. (The integers that are no doubles are no
  configuration the code can be given; the theorem holds for them all the same.)
\<close>

theorem calculateGasFees_formula:
  assumes "w_estimateFeesPerGas w (history s) = Inr (b, p)"
    and "truthy_or m 2 \<le> 2 ^ 53"
  shows "calculateGasFees w (int_config cfg mo po m) s
           = (Inr (truthy_or mo b + truthy_or po p * max 0 (truthy_or m 2 - 1)),
              s\<lparr>history := history s @ [EstimateFeesPerGas]\<rparr>)
         \<and> fst (calculateGasFees w (int_config cfg mo po (Some 1)) s) = Inr (truthy_or mo b)"
proof -
  have one: "truthy_or (Some 1) 2 \<le> 2 ^ 53" by (simp add: truthy_or_def)
  show ?thesis
    using calculateGasFees_int_config [OF assms, of cfg mo po]
      calculateGasFees_int_config [OF assms(1) one, of cfg mo po]
    by (simp add: truthy_or_def perform_def)
qed

theorem calculateGasFees_formula_witness:
  "calculateGasFees quiet_world
          (int_config base_config (Some 20000000) (Some 21000000) (Some 2)) start
     = (Inr 41000000, \<lparr>history = [EstimateFeesPerGas], pendingNonce = 0\<rparr>)
   \<and> fst (calculateGasFees quiet_world
          (int_config base_config (Some 20000000) (Some 21000000) (Some 1)) start)
     = Inr 20000000
   \<and> fst (calculateGasFees quiet_world (int_config base_config None None (Some 9007199254740992))
          start)
     = Inr 63050394783187037"
proof -
  have live: "w_estimateFeesPerGas quiet_world (history start) = Inr (100, 7)"
    by (simp add: quiet_world_def)
  have two: "truthy_or (Some 2) 2 \<le> 2 ^ 53"
    and big: "truthy_or (Some 9007199254740992) 2 \<le> 2 ^ 53"
    by (simp_all add: truthy_or_def)
  show ?thesis
    using calculateGasFees_formula [OF live two, of base_config "Some 20000000" "Some 21000000"]
      calculateGasFees_formula [OF live big, of base_config None None]
    by (simp add: truthy_or_def start_def)
qed

section \<open>Dispatch: fallback, retry and terminal failure (claims C2, C3, C4)\<close>

lemmas io_defs = perform_def estimateFeesPerGas_def estimateGas_def signerSendTransaction_def
  smartAccountSendTransaction_def waitForTransactionReceipt_def getTransactionReceipt_def
  setTimeout_def

lemma direct_broadcasts_append [simp]:
  "direct_broadcasts (xs @ ys) = direct_broadcasts xs @ direct_broadcasts ys"
  by (induction xs rule: direct_broadcasts.induct) simp_all

lemma calculateGasFees_history:
  "calculateGasFees w cfg s = (r, s1) \<Longrightarrow> s1 = perform EstimateFeesPerGas s"
  by (auto simp: calculateGasFees_def finalMaxFeePerGas_def number_minus_one estimateFeesPerGas_def Let_def split: sum.splits prod.splits)

lemma sendSponsoredTransaction_broadcasts:
  "sendSponsoredTransaction w b to data val s = (r, s1) \<Longrightarrow>
     direct_broadcasts (history s1) = direct_broadcasts (history s)"
  by (auto simp: sendSponsoredTransaction_def io_defs Let_def split: if_splits sum.splits prod.splits)

lemma enters_direct_path_sendTransaction:
  "enters_direct_path w c to data val forceEOA s sf \<Longrightarrow>
     sendTransaction w c to data val forceEOA s = sendTransactionDirect w c to data val sf"
  by (auto simp: enters_direct_path_def sendTransaction_def split: if_splits option.splits sum.splits prod.splits)

lemma waitForTransactionReceipt_state:
  "waitForTransactionReceipt w h s = (r, s1) \<Longrightarrow> s1 = perform (WaitForTransactionReceipt h) s"
  by (auto simp: waitForTransactionReceipt_def)

lemma enters_direct_path_broadcasts:
  assumes "enters_direct_path w c to data val forceEOA s sf"
  shows "direct_broadcasts (history sf) = direct_broadcasts (history s)"
proof (cases "\<not> forceEOA \<and> sponsorship c")
  case False
  with assms show ?thesis by (simp add: enters_direct_path_def)
next
  case True
  obtain r s1 where sp: "sendSponsoredTransaction w (sponsorship c) to data val s = (r, s1)"
    by force
  have same: "direct_broadcasts (history s1) = direct_broadcasts (history s)"
    using sp by (rule sendSponsoredTransaction_broadcasts)
  show ?thesis
  proof (cases r)
    case None
    with assms True sp have "sf = s1" by (simp add: enters_direct_path_def)
    with same show ?thesis by simp
  next
    case (Some h)
    obtain rr s2 where wt: "waitForTransactionReceipt w h s1 = (rr, s2)" by force
    have "s2 = perform (WaitForTransactionReceipt h) s1"
      using wt by (rule waitForTransactionReceipt_state)
    then have "direct_broadcasts (history s2) = direct_broadcasts (history s)"
      using same by (simp add: perform_def)
    moreover have "sf = s2"
      using assms True sp Some wt by (cases rr) (simp_all add: enters_direct_path_def)
    ultimately show ?thesis by simp
  qed
qed

lemma sendTransactionDirect_receipt_failure:
  assumes "calculateGasFees w (client_config c) s = (Inr fee, d1)"
    and "estimateGas w \<lparr>gr_account = signerAddress c, gr_to = to, gr_data = data,
                         gr_value = val, gr_maxFeePerGas = fee\<rparr> d1 = (Inr gas, d2)"
    and "signerSendTransaction w \<lparr>tx_to = to, tx_data = data, tx_value = val, tx_gas = Some gas,
                       tx_maxFeePerGas = Some fee, tx_chain = Some (chain (client_config c))\<rparr> d2
           = (Inr h, d3)"
    and "waitForTransactionReceipt w h d3 = (Inr rc, d4)"
    and "receipt_status rc \<noteq> ''success''"
  shows "sendTransactionDirect w c to data val s = (Inl (Error ''Transaction failed''), d4)"
  using assms by (simp add: sendTransactionDirect_def)

lemma sendTransactionDirect_fee_query_first:
  "\<exists>rest. history (snd (sendTransactionDirect w c to data val sf))
            = history sf @ EstimateFeesPerGas # rest"
  by (auto simp: sendTransactionDirect_def calculateGasFees_def io_defs
      split: sum.splits prod.splits)

lemma sendTransactionDirect_trace:
  assumes "req = \<lparr>gr_account = signerAddress c, gr_to = to, gr_data = data,
                   gr_value = val, gr_maxFeePerGas = fee\<rparr>"
    and "tx = \<lparr>tx_to = to, tx_data = data, tx_value = val, tx_gas = Some gas,
                 tx_maxFeePerGas = Some fee, tx_chain = Some (chain (client_config c))\<rparr>"
    and "w_estimateFeesPerGas w (history sf) = Inr (b, p)"
    and "finalMaxFeePerGas (client_config c) b p = Inr fee"
    and "w_estimateGas w (history sf @ [EstimateFeesPerGas]) req = Inr gas"
    and "w_signerSendTransaction w (history sf @ [EstimateFeesPerGas, EstimateGas req]) tx = Inr dh"
    and "w_waitForTransactionReceipt w
           (history sf @ [EstimateFeesPerGas, EstimateGas req, SignerSendTransaction tx]) dh
         = Inr rcd"
  shows "sendTransactionDirect w c to data val sf
           = (if receipt_status rcd = ''success'' then Inr dh
              else Inl (Error ''Transaction failed''),
              sf\<lparr>history := history sf @ [EstimateFeesPerGas, EstimateGas req,
                                           SignerSendTransaction tx,
                                           WaitForTransactionReceipt dh]\<rparr>)"
  using assms(3-) unfolding assms(1,2)
  by (simp add: sendTransactionDirect_def calculateGasFees_def io_defs)

lemma base_fee: "finalMaxFeePerGas base_config 100 7 = Inr 41000000"
  by (simp add: finalMaxFeePerGas_def number_minus_one base_config_def or_else_def number_or_def)

lemma sendSponsoredTransaction_first_failure:
  assumes tx: "tx = \<lparr>sp_to = to, sp_data = data, sp_value = (case val of None \<Rightarrow> 0 | Some v \<Rightarrow> v)\<rparr>"
    and pre: "pre = history s @ (if pendingNonce s > 0 then [SetTimeout 500] else [])"
    and first: "w_smartAccountSendTransaction w pre tx = Inl e"
  shows "sendSponsoredTransaction w True to data val s =
           (if is_nonce_error e then
              (case w_smartAccountSendTransaction w
                      (pre @ [SmartAccountSendTransaction tx, SetTimeout 2000]) tx of
                 Inr h \<Rightarrow> (Some h, s\<lparr>history := pre @ [SmartAccountSendTransaction tx, SetTimeout 2000,
                                                       SmartAccountSendTransaction tx],
                                      pendingNonce := pendingNonce s + 1\<rparr>)
               | Inl x \<Rightarrow> (None, s\<lparr>history := pre @ [SmartAccountSendTransaction tx, SetTimeout 2000,
                                                      SmartAccountSendTransaction tx]\<rparr>))
            else (None, s\<lparr>history := pre @ [SmartAccountSendTransaction tx]\<rparr>))"
proof -
  define s0 where "s0 = (if pendingNonce s > 0 then setTimeout 500 s else s)"
  have h0: "history s0 = pre" and n0: "pendingNonce s0 = pendingNonce s"
    and u0: "\<And>h. s0\<lparr>history := h\<rparr> = s\<lparr>history := h\<rparr>"
    using pre by (simp_all add: s0_def setTimeout_def perform_def)
  have unfold: "sendSponsoredTransaction w True to data val s =
      (case smartAccountSendTransaction w tx s0 of
              (Inr hash, s2) \<Rightarrow> (Some hash, s2\<lparr>pendingNonce := pendingNonce s2 + 1\<rparr>)
            | (Inl e, s2) \<Rightarrow>
                if is_nonce_error e then
                  (case smartAccountSendTransaction w tx (setTimeout 2000 s2) of
                     (Inr hash, s3) \<Rightarrow> (Some hash, s3\<lparr>pendingNonce := pendingNonce s3 + 1\<rparr>)
                   | (Inl retryError, s3) \<Rightarrow> (None, s3))
                else (None, s2))"
    unfolding sendSponsoredTransaction_def Let_def s0_def tx by simp
  show ?thesis
    unfolding unfold
    using first h0 n0 u0
    by (cases "w_smartAccountSendTransaction w
                      (pre @ [SmartAccountSendTransaction tx, SetTimeout 2000]) tx")
       (simp_all add: smartAccountSendTransaction_def setTimeout_def perform_def)
qed

lemma sendSponsoredTransaction_first_success:
  assumes tx: "tx = \<lparr>sp_to = to, sp_data = data, sp_value = (case val of None \<Rightarrow> 0 | Some v \<Rightarrow> v)\<rparr>"
    and pre: "pre = history s @ (if pendingNonce s > 0 then [SetTimeout 500] else [])"
    and first: "w_smartAccountSendTransaction w pre tx = Inr h"
  shows "sendSponsoredTransaction w True to data val s =
           (Some h, s\<lparr>history := pre @ [SmartAccountSendTransaction tx],
                       pendingNonce := pendingNonce s + 1\<rparr>)"
proof -
  define s0 where "s0 = (if pendingNonce s > 0 then setTimeout 500 s else s)"
  have h0: "history s0 = pre" and n0: "pendingNonce s0 = pendingNonce s"
    and u0: "\<And>h. s0\<lparr>history := h\<rparr> = s\<lparr>history := h\<rparr>"
    using pre by (simp_all add: s0_def setTimeout_def perform_def)
  have unfold: "sendSponsoredTransaction w True to data val s =
      (case smartAccountSendTransaction w tx s0 of
              (Inr hash, s2) \<Rightarrow> (Some hash, s2\<lparr>pendingNonce := pendingNonce s2 + 1\<rparr>)
            | (Inl e, s2) \<Rightarrow>
                if is_nonce_error e then
                  (case smartAccountSendTransaction w tx (setTimeout 2000 s2) of
                     (Inr hash, s3) \<Rightarrow> (Some hash, s3\<lparr>pendingNonce := pendingNonce s3 + 1\<rparr>)
                   | (Inl retryError, s3) \<Rightarrow> (None, s3))
                else (None, s2))"
    unfolding sendSponsoredTransaction_def Let_def s0_def tx by simp
  show ?thesis
    unfolding unfold
    using first h0 n0 u0
    by (simp add: smartAccountSendTransaction_def perform_def)
qed

lemma sponsorship_fails_enters_direct_path:
  assumes "sponsorship c" and "\<not> forceEOA"
    and sp: "sp = \<lparr>sp_to = to, sp_data = data, sp_value = (case val of None \<Rightarrow> 0 | Some v \<Rightarrow> v)\<rparr>"
    and pre: "pre = history s @ (if pendingNonce s > 0 then [SetTimeout 500] else [])"
    and fails: "sponsorship_fails w pre sp hf k"
  shows "enters_direct_path w c to data val forceEOA s
           (s\<lparr>history := hf, pendingNonce := pendingNonce s + k\<rparr>)"
  using fails
proof cases
  case (rejected e)
  then show ?thesis
    using assms(1,2) sendSponsoredTransaction_first_failure [OF sp pre rejected(3)]
    by (simp add: enters_direct_path_def)
next
  case (retry_rejected e e2)
  then show ?thesis
    using assms(1,2) sendSponsoredTransaction_first_failure [OF sp pre retry_rejected(3)]
    by (simp add: enters_direct_path_def)
next
  case (receipt_not_success h rc)
  then show ?thesis
    using assms(1,2) sendSponsoredTransaction_first_success [OF sp pre receipt_not_success(3)]
    by (simp add: enters_direct_path_def waitForTransactionReceipt_def perform_def)
next
  case (retry_receipt_not_success e h rc)
  then show ?thesis
    using assms(1,2) sendSponsoredTransaction_first_failure [OF sp pre retry_receipt_not_success(3)]
    by (simp add: enters_direct_path_def waitForTransactionReceipt_def perform_def)
qed

lemma sponsorship_fails_history:
  assumes "sponsorship_fails w pre sp hf k"
  shows "\<exists>evs. hf = pre @ SmartAccountSendTransaction sp # evs
               \<and> direct_broadcasts evs = []"
  using assms by cases simp_all

text \<open>
  Claim C2: when the sponsorship capability is initialized and the sponsored attempt fails
  (the sponsored submission returns no hash, or the receipt of the sponsored hash has a
  status other than success), \<open>sendTransaction\<close> goes on with the direct path. Its
  outcome is the direct path's outcome, so the failed attempt by itself throws nothing; the
  next call it makes is the fee query; and when the world answers the fee query, the gas
  estimation, the submission to the session signer and the wait for the receipt, these four
  calls are exactly what follows the attempt, the session signer's hash is returned when the
  status of the direct receipt is success (\<open>Transaction failed\<close> is thrown otherwise),
  and the session signer has been called once.
\<close>

theorem sendTransaction_sponsorship_fallback:
  assumes "sponsorship c" and "\<not> forceEOA"
    and "sp = \<lparr>sp_to = to, sp_data = data, sp_value = (case val of None \<Rightarrow> 0 | Some v \<Rightarrow> v)\<rparr>"
    and "pre = history s @ (if pendingNonce s > 0 then [SetTimeout 500] else [])"
    and "sponsorship_fails w pre sp hf k"
    and "req = \<lparr>gr_account = signerAddress c, gr_to = to, gr_data = data,
                   gr_value = val, gr_maxFeePerGas = fee\<rparr>"
    and "tx = \<lparr>tx_to = to, tx_data = data, tx_value = val, tx_gas = Some gas,
                 tx_maxFeePerGas = Some fee, tx_chain = Some (chain (client_config c))\<rparr>"
  shows "sendTransaction w c to data val forceEOA s
           = sendTransactionDirect w c to data val
               (s\<lparr>history := hf, pendingNonce := pendingNonce s + k\<rparr>)
       \<and> (\<exists>rest. history (snd (sendTransaction w c to data val forceEOA s))
                    = hf @ EstimateFeesPerGas # rest)
       \<and> (w_estimateFeesPerGas w hf = Inr (b, p)
            \<and> finalMaxFeePerGas (client_config c) b p = Inr fee
            \<and> w_estimateGas w (hf @ [EstimateFeesPerGas]) req = Inr gas
            \<and> w_signerSendTransaction w (hf @ [EstimateFeesPerGas, EstimateGas req]) tx = Inr dh
            \<and> w_waitForTransactionReceipt w
                 (hf @ [EstimateFeesPerGas, EstimateGas req, SignerSendTransaction tx]) dh
               = Inr rcd
          \<longrightarrow> sendTransaction w c to data val forceEOA s
                = (if receipt_status rcd = ''success'' then Inr dh
                   else Inl (Error ''Transaction failed''),
                   s\<lparr>history := hf @ [EstimateFeesPerGas, EstimateGas req,
                                       SignerSendTransaction tx,
                                       WaitForTransactionReceipt dh],
                     pendingNonce := pendingNonce s + k\<rparr>)
              \<and> direct_broadcasts (hf @ [EstimateFeesPerGas, EstimateGas req,
                                          SignerSendTransaction tx,
                                          WaitForTransactionReceipt dh])
                  = direct_broadcasts (history s) @ [tx])"
proof -
  let ?sf = "s\<lparr>history := hf, pendingNonce := pendingNonce s + k\<rparr>"
  have entry: "enters_direct_path w c to data val forceEOA s ?sf"
    using assms(1-5) by (rule sponsorship_fails_enters_direct_path)
  have eq: "sendTransaction w c to data val forceEOA s = sendTransactionDirect w c to data val ?sf"
    using entry by (rule enters_direct_path_sendTransaction)
  have first: "\<exists>rest. history (snd (sendTransaction w c to data val forceEOA s))
                    = hf @ EstimateFeesPerGas # rest"
    using sendTransactionDirect_fee_query_first [of w c to data val ?sf] eq by simp
  have same: "direct_broadcasts hf = direct_broadcasts (history s)"
    using enters_direct_path_broadcasts [OF entry] by simp
  have run: "w_estimateFeesPerGas w hf = Inr (b, p)
            \<and> finalMaxFeePerGas (client_config c) b p = Inr fee
            \<and> w_estimateGas w (hf @ [EstimateFeesPerGas]) req = Inr gas
            \<and> w_signerSendTransaction w (hf @ [EstimateFeesPerGas, EstimateGas req]) tx = Inr dh
            \<and> w_waitForTransactionReceipt w
                 (hf @ [EstimateFeesPerGas, EstimateGas req, SignerSendTransaction tx]) dh
               = Inr rcd
          \<Longrightarrow> sendTransaction w c to data val forceEOA s
                = (if receipt_status rcd = ''success'' then Inr dh
                   else Inl (Error ''Transaction failed''),
                   s\<lparr>history := hf @ [EstimateFeesPerGas, EstimateGas req,
                                       SignerSendTransaction tx,
                                       WaitForTransactionReceipt dh],
                     pendingNonce := pendingNonce s + k\<rparr>)"
    using sendTransactionDirect_trace [where sf = ?sf and w = w and c = c, OF assms(6,7)] eq
    by simp
  show ?thesis
    using eq first same run by simp
qed

theorem sendTransaction_sponsorship_fallback_witness:
  "sendTransaction quiet_world sponsored_client (Hex ''c0'') (Hex ''da'') None False start
     = (Inr (Hex ''d1''),
        \<lparr>history =
           [SmartAccountSendTransaction \<lparr>sp_to = Hex ''c0'', sp_data = Hex ''da'', sp_value = 0\<rparr>,
            EstimateFeesPerGas,
            EstimateGas \<lparr>gr_account = Hex ''51'', gr_to = Hex ''c0'', gr_data = Hex ''da'',
                         gr_value = None, gr_maxFeePerGas = 41000000\<rparr>,
            SignerSendTransaction \<lparr>tx_to = Hex ''c0'', tx_data = Hex ''da'', tx_value = None,
                         tx_gas = Some 21000, tx_maxFeePerGas = Some 41000000,
                         tx_chain = Some 84532\<rparr>,
            WaitForTransactionReceipt (Hex ''d1'')],
         pendingNonce = 0\<rparr>)
   \<and> sendTransaction retry_reverted_world sponsored_client (Hex ''c0'') (Hex ''da'') None False
        start
     = (Inr (Hex ''d1''),
        \<lparr>history =
           [SmartAccountSendTransaction \<lparr>sp_to = Hex ''c0'', sp_data = Hex ''da'', sp_value = 0\<rparr>,
            SetTimeout 2000,
            SmartAccountSendTransaction \<lparr>sp_to = Hex ''c0'', sp_data = Hex ''da'', sp_value = 0\<rparr>,
            WaitForTransactionReceipt (Hex ''5a''),
            EstimateFeesPerGas,
            EstimateGas \<lparr>gr_account = Hex ''51'', gr_to = Hex ''c0'', gr_data = Hex ''da'',
                         gr_value = None, gr_maxFeePerGas = 41000000\<rparr>,
            SignerSendTransaction \<lparr>tx_to = Hex ''c0'', tx_data = Hex ''da'', tx_value = None,
                         tx_gas = Some 21000, tx_maxFeePerGas = Some 41000000,
                         tx_chain = Some 84532\<rparr>,
            WaitForTransactionReceipt (Hex ''d1'')],
         pendingNonce = 1\<rparr>)"
proof -
  let ?sp = "\<lparr>sp_to = Hex ''c0'', sp_data = Hex ''da'', sp_value = 0\<rparr>"
  let ?req = "\<lparr>gr_account = Hex ''51'', gr_to = Hex ''c0'', gr_data = Hex ''da'',
               gr_value = None, gr_maxFeePerGas = 41000000\<rparr>"
  let ?tx = "\<lparr>tx_to = Hex ''c0'', tx_data = Hex ''da'', tx_value = None, tx_gas = Some 21000,
              tx_maxFeePerGas = Some 41000000, tx_chain = Some 84532\<rparr>"
  let ?good = "\<lparr>receipt_status = ''success'', receipt_logs = []\<rparr>"
  let ?bad = "\<lparr>receipt_status = ''reverted'', receipt_logs = []\<rparr>"
  have a1: "sponsorship sponsored_client" by (simp add: sponsored_client_def)
  have a2: "\<not> False" by simp
  have sp: "?sp = \<lparr>sp_to = Hex ''c0'', sp_data = Hex ''da'',
                    sp_value = (case None of None \<Rightarrow> 0 | Some v \<Rightarrow> v)\<rparr>"
    by simp
  have pre: "[] = history start @ (if pendingNonce start > 0 then [SetTimeout 500] else [])"
    by (simp add: start_def)
  have req: "?req = \<lparr>gr_account = signerAddress sponsored_client, gr_to = Hex ''c0'',
                      gr_data = Hex ''da'', gr_value = None, gr_maxFeePerGas = 41000000\<rparr>"
    by (simp add: sponsored_client_def)
  have tx: "?tx = \<lparr>tx_to = Hex ''c0'', tx_data = Hex ''da'', tx_value = None, tx_gas = Some 21000,
                    tx_maxFeePerGas = Some 41000000,
                    tx_chain = Some (chain (client_config sponsored_client))\<rparr>"
    by (simp add: sponsored_client_def base_config_def)
  have fee: "finalMaxFeePerGas (client_config sponsored_client) 100 7 = Inr 41000000"
    by (simp add: sponsored_client_def base_fee)
  have no_hash: "sendTransaction quiet_world sponsored_client (Hex ''c0'') (Hex ''da'') None False
                   start
     = (Inr (Hex ''d1''),
        \<lparr>history = [SmartAccountSendTransaction ?sp, EstimateFeesPerGas, EstimateGas ?req,
                    SignerSendTransaction ?tx, WaitForTransactionReceipt (Hex ''d1'')],
         pendingNonce = 0\<rparr>)"
  proof -
    let ?hf = "[] @ [SmartAccountSendTransaction ?sp]"
    have "\<not> is_nonce_error (Error ''paymaster rejected'')"
      by (simp add: is_nonce_error_def)
    then have fails: "sponsorship_fails quiet_world [] ?sp ?hf 0"
      by (intro sponsorship_fails.rejected [where e = "Error ''paymaster rejected''"])
         (simp_all add: quiet_world_def)
    have run: "w_estimateFeesPerGas quiet_world ?hf = Inr (100, 7)
            \<and> finalMaxFeePerGas (client_config sponsored_client) 100 7 = Inr 41000000
            \<and> w_estimateGas quiet_world (?hf @ [EstimateFeesPerGas]) ?req = Inr 21000
            \<and> w_signerSendTransaction quiet_world (?hf @ [EstimateFeesPerGas, EstimateGas ?req])
                 ?tx = Inr (Hex ''d1'')
            \<and> w_waitForTransactionReceipt quiet_world
                 (?hf @ [EstimateFeesPerGas, EstimateGas ?req, SignerSendTransaction ?tx])
                 (Hex ''d1'')
               = Inr ?good"
      using fee by (simp add: quiet_world_def)
    show ?thesis
      using sendTransaction_sponsorship_fallback [OF a1 a2 sp pre fails req tx,
          THEN conjunct2, THEN conjunct2, rule_format, OF run]
      by (simp add: start_def)
  qed
  have reverted: "sendTransaction retry_reverted_world sponsored_client (Hex ''c0'') (Hex ''da'')
                    None False start
     = (Inr (Hex ''d1''),
        \<lparr>history = [SmartAccountSendTransaction ?sp, SetTimeout 2000,
                    SmartAccountSendTransaction ?sp, WaitForTransactionReceipt (Hex ''5a''),
                    EstimateFeesPerGas, EstimateGas ?req, SignerSendTransaction ?tx,
                    WaitForTransactionReceipt (Hex ''d1'')],
         pendingNonce = 1\<rparr>)"
  proof -
    let ?hf = "[] @ [SmartAccountSendTransaction ?sp, SetTimeout 2000,
                     SmartAccountSendTransaction ?sp, WaitForTransactionReceipt (Hex ''5a'')]"
    have "is_nonce_error (Error ''AA25 invalid account nonce'')"
      by (simp add: is_nonce_error_def)
    then have fails: "sponsorship_fails retry_reverted_world [] ?sp ?hf 1"
      by (intro sponsorship_fails.retry_receipt_not_success
            [where e = "Error ''AA25 invalid account nonce''" and rc = ?bad])
         (simp_all add: retry_reverted_world_def nonce_conflict_world_def quiet_world_def)
    have run: "w_estimateFeesPerGas retry_reverted_world ?hf = Inr (100, 7)
            \<and> finalMaxFeePerGas (client_config sponsored_client) 100 7 = Inr 41000000
            \<and> w_estimateGas retry_reverted_world (?hf @ [EstimateFeesPerGas]) ?req = Inr 21000
            \<and> w_signerSendTransaction retry_reverted_world
                 (?hf @ [EstimateFeesPerGas, EstimateGas ?req]) ?tx = Inr (Hex ''d1'')
            \<and> w_waitForTransactionReceipt retry_reverted_world
                 (?hf @ [EstimateFeesPerGas, EstimateGas ?req, SignerSendTransaction ?tx])
                 (Hex ''d1'')
               = Inr ?good"
      using fee
      by (simp add: retry_reverted_world_def nonce_conflict_world_def quiet_world_def)
    show ?thesis
      using sendTransaction_sponsorship_fallback [OF a1 a2 sp pre fails req tx,
          THEN conjunct2, THEN conjunct2, rule_format, OF run]
      by (simp add: start_def)
  qed
  from no_hash reverted show ?thesis by (rule conjI)
qed

text \<open>
  Claim C3 as stated fails: the retry after a nonce conflict succeeds (it returns the hash
  \<open>0x5a\<close>), but the receipt of that hash is not a success, so the dispatch does not
  succeed on the sponsored path: the direct fallback is invoked and its hash is returned.
\<close>

theorem retry_success_still_falls_back_counterexample:
  "w_smartAccountSendTransaction retry_reverted_world (history start)
       \<lparr>sp_to = Hex ''c0'', sp_data = Hex ''da'', sp_value = 0\<rparr>
     = Inl (Error ''AA25 invalid account nonce'')
   \<and> is_nonce_error (Error ''AA25 invalid account nonce'')
   \<and> fst (sendSponsoredTransaction retry_reverted_world True (Hex ''c0'') (Hex ''da'') None start)
       = Some (Hex ''5a'')
   \<and> fst (sendTransaction retry_reverted_world sponsored_client (Hex ''c0'') (Hex ''da'') None
             False start) = Inr (Hex ''d1'')
   \<and> direct_broadcasts (history (snd (sendTransaction retry_reverted_world sponsored_client
             (Hex ''c0'') (Hex ''da'') None False start)))
       = [\<lparr>tx_to = Hex ''c0'', tx_data = Hex ''da'', tx_value = None, tx_gas = Some 21000,
           tx_maxFeePerGas = Some 41000000, tx_chain = Some 84532\<rparr>]"
  by (simp add: retry_reverted_world_def nonce_conflict_world_def quiet_world_def start_def
      sponsored_client_def base_config_def is_nonce_error_def sendTransaction_def
      sendSponsoredTransaction_def sendTransactionDirect_def calculateGasFees_def finalMaxFeePerGas_def number_minus_one io_defs
      or_else_def number_or_def Let_def)

text \<open>
  Claim C3, amended: a first sponsored submission that fails with an error whose message
  contains \<open>AA25\<close> or \<open>nonce\<close> is retried exactly once, with the same request, after a
  delay of 2000 ms, and the result is the retry's hash, or no hash when the retry fails; any
  other error ends the attempt with no hash and no retry. If the retry returns a hash and
  the receipt of that hash is a success, the dispatch returns that hash and the session
  signer is never called.
\<close>

theorem sendSponsoredTransaction_nonce_retry:
  assumes tx: "tx = \<lparr>sp_to = to, sp_data = data, sp_value = (case val of None \<Rightarrow> 0 | Some v \<Rightarrow> v)\<rparr>"
    and pre: "pre = history s @ (if pendingNonce s > 0 then [SetTimeout 500] else [])"
    and first: "w_smartAccountSendTransaction w pre tx = Inl e"
  shows
   "(\<not> is_nonce_error e \<longrightarrow>
        fst (sendSponsoredTransaction w True to data val s) = None
      \<and> history (snd (sendSponsoredTransaction w True to data val s))
           = pre @ [SmartAccountSendTransaction tx])
    \<and> (is_nonce_error e \<longrightarrow>
        history (snd (sendSponsoredTransaction w True to data val s))
           = pre @ [SmartAccountSendTransaction tx, SetTimeout 2000, SmartAccountSendTransaction tx]
      \<and> fst (sendSponsoredTransaction w True to data val s)
           = (case w_smartAccountSendTransaction w
                     (pre @ [SmartAccountSendTransaction tx, SetTimeout 2000]) tx of
                Inr h \<Rightarrow> Some h | Inl x \<Rightarrow> None))
    \<and> (is_nonce_error e \<and> sponsorship c \<and> \<not> forceEOA
        \<and> w_smartAccountSendTransaction w
              (pre @ [SmartAccountSendTransaction tx, SetTimeout 2000]) tx = Inr h
        \<and> w_waitForTransactionReceipt w
              (pre @ [SmartAccountSendTransaction tx, SetTimeout 2000,
                      SmartAccountSendTransaction tx]) h = Inr rc
        \<and> receipt_status rc = ''success''
       \<longrightarrow> fst (sendTransaction w c to data val forceEOA s) = Inr h
         \<and> history (snd (sendTransaction w c to data val forceEOA s))
             = pre @ [SmartAccountSendTransaction tx, SetTimeout 2000,
                      SmartAccountSendTransaction tx, WaitForTransactionReceipt h]
         \<and> direct_broadcasts (history (snd (sendTransaction w c to data val forceEOA s)))
             = direct_broadcasts (history s))"
proof -
  note sp = sendSponsoredTransaction_first_failure [OF tx pre first]
  have p1: "\<not> is_nonce_error e \<Longrightarrow> ?thesis"
    using sp by simp
  have p2: "is_nonce_error e \<Longrightarrow> ?thesis"
    using sp pre
    by (cases "w_smartAccountSendTransaction w
                      (pre @ [SmartAccountSendTransaction tx, SetTimeout 2000]) tx")
       (auto simp: sendTransaction_def io_defs)
  show ?thesis using p1 p2 by blast
qed

theorem sendSponsoredTransaction_nonce_retry_witness:
  "fst (sendSponsoredTransaction nonce_conflict_world True (Hex ''c0'') (Hex ''da'') None start)
     = Some (Hex ''5a'')
   \<and> history (snd (sendSponsoredTransaction nonce_conflict_world True (Hex ''c0'') (Hex ''da'')
                     None start))
     = [SmartAccountSendTransaction \<lparr>sp_to = Hex ''c0'', sp_data = Hex ''da'', sp_value = 0\<rparr>,
        SetTimeout 2000,
        SmartAccountSendTransaction \<lparr>sp_to = Hex ''c0'', sp_data = Hex ''da'', sp_value = 0\<rparr>]
   \<and> fst (sendTransaction nonce_conflict_world sponsored_client (Hex ''c0'') (Hex ''da'') None
             False start) = Inr (Hex ''5a'')
   \<and> direct_broadcasts (history (snd (sendTransaction nonce_conflict_world sponsored_client
             (Hex ''c0'') (Hex ''da'') None False start))) = []
   \<and> \<not> is_nonce_error (Error ''paymaster rejected'')
   \<and> fst (sendSponsoredTransaction quiet_world True (Hex ''c0'') (Hex ''da'') None start) = None
   \<and> history (snd (sendSponsoredTransaction quiet_world True (Hex ''c0'') (Hex ''da'') None
                     start))
     = [SmartAccountSendTransaction \<lparr>sp_to = Hex ''c0'', sp_data = Hex ''da'', sp_value = 0\<rparr>]"
proof -
  let ?tx = "\<lparr>sp_to = Hex ''c0'', sp_data = Hex ''da'', sp_value = 0\<rparr>"
  have tx: "?tx = \<lparr>sp_to = Hex ''c0'', sp_data = Hex ''da'',
                   sp_value = (case None of None \<Rightarrow> 0 | Some v \<Rightarrow> v)\<rparr>"
    by simp
  have pre: "[] = history start @ (if pendingNonce start > 0 then [SetTimeout 500] else [])"
    by (simp add: start_def)
  have first: "w_smartAccountSendTransaction nonce_conflict_world [] ?tx
                 = Inl (Error ''AA25 invalid account nonce'')"
    by (simp add: nonce_conflict_world_def)
  have nonce: "is_nonce_error (Error ''AA25 invalid account nonce'')"
    by (simp add: is_nonce_error_def)
  have rest: "is_nonce_error (Error ''AA25 invalid account nonce'') \<and> sponsorship sponsored_client
        \<and> \<not> False
        \<and> w_smartAccountSendTransaction nonce_conflict_world
              ([] @ [SmartAccountSendTransaction ?tx, SetTimeout 2000]) ?tx = Inr (Hex ''5a'')
        \<and> w_waitForTransactionReceipt nonce_conflict_world
              ([] @ [SmartAccountSendTransaction ?tx, SetTimeout 2000,
                      SmartAccountSendTransaction ?tx]) (Hex ''5a'')
            = Inr \<lparr>receipt_status = ''success'', receipt_logs = []\<rparr>
        \<and> receipt_status \<lparr>receipt_status = ''success'', receipt_logs = []\<rparr> = ''success''"
    using nonce by (simp add: nonce_conflict_world_def quiet_world_def sponsored_client_def)
  note retry = sendSponsoredTransaction_nonce_retry [OF tx pre first,
      of sponsored_client False "Hex ''5a''" "\<lparr>receipt_status = ''success'', receipt_logs = []\<rparr>"]
  have second: "history (snd (sendSponsoredTransaction nonce_conflict_world True (Hex ''c0'')
                     (Hex ''da'') None start))
       = [] @ [SmartAccountSendTransaction ?tx, SetTimeout 2000, SmartAccountSendTransaction ?tx]
      \<and> fst (sendSponsoredTransaction nonce_conflict_world True (Hex ''c0'') (Hex ''da'') None start)
           = (case w_smartAccountSendTransaction nonce_conflict_world
                     ([] @ [SmartAccountSendTransaction ?tx, SetTimeout 2000]) ?tx of
                Inr h \<Rightarrow> Some h | Inl x \<Rightarrow> None)"
    using retry [THEN conjunct2, THEN conjunct1, rule_format, OF nonce] .
  note third = retry [THEN conjunct2, THEN conjunct2, rule_format, OF rest]
  have rejected: "w_smartAccountSendTransaction quiet_world [] ?tx
                    = Inl (Error ''paymaster rejected'')"
    by (simp add: quiet_world_def)
  have other: "\<not> is_nonce_error (Error ''paymaster rejected'')"
    by (simp add: is_nonce_error_def)
  note no_retry = sendSponsoredTransaction_nonce_retry [OF tx pre rejected,
      THEN conjunct1, rule_format, OF other]
  show ?thesis
    using second third rest other no_retry by (simp add: start_def)
qed

text \<open>
  Claim C4: when the regular flow submits a transaction whose mined receipt has a status
  other than success, \<open>sendTransaction\<close> throws \<open>Transaction failed\<close>; the session
  signer was called exactly once, and the wait for the receipt is the last call made.
\<close>

theorem sendTransaction_receipt_failure_terminal:
  assumes "enters_direct_path w c to data val forceEOA s sf"
    and "req = \<lparr>gr_account = signerAddress c, gr_to = to, gr_data = data,
                gr_value = val, gr_maxFeePerGas = fee\<rparr>"
    and "tx = \<lparr>tx_to = to, tx_data = data, tx_value = val, tx_gas = Some gas,
               tx_maxFeePerGas = Some fee, tx_chain = Some (chain (client_config c))\<rparr>"
    and "calculateGasFees w (client_config c) sf = (Inr fee, d1)"
    and "estimateGas w req d1 = (Inr gas, d2)"
    and "signerSendTransaction w tx d2 = (Inr h, d3)"
    and "waitForTransactionReceipt w h d3 = (Inr rc, d4)"
    and "receipt_status rc \<noteq> ''success''"
  shows "sendTransaction w c to data val forceEOA s = (Inl (Error ''Transaction failed''), d4)
         \<and> history d4 = history sf @ [EstimateFeesPerGas, EstimateGas req,
                                       SignerSendTransaction tx, WaitForTransactionReceipt h]
         \<and> direct_broadcasts (history d4) = direct_broadcasts (history s) @ [tx]"
proof -
  have eq: "sendTransaction w c to data val forceEOA s = sendTransactionDirect w c to data val sf"
    using assms(1) by (rule enters_direct_path_sendTransaction)
  have res: "sendTransactionDirect w c to data val sf = (Inl (Error ''Transaction failed''), d4)"
    using assms(2-) by (auto intro: sendTransactionDirect_receipt_failure)
  have "d1 = perform EstimateFeesPerGas sf"
    using assms(4) by (rule calculateGasFees_history)
  then have hist: "history d4 = history sf @ [EstimateFeesPerGas, EstimateGas req,
                                       SignerSendTransaction tx, WaitForTransactionReceipt h]"
    using assms(5-7) by (auto simp: io_defs)
  have "direct_broadcasts (history sf) = direct_broadcasts (history s)"
    using assms(1) by (rule enters_direct_path_broadcasts)
  then show ?thesis using eq res hist by simp
qed

theorem sendTransaction_receipt_failure_terminal_witness:
  "sendTransaction reverting_world sponsored_client (Hex ''c0'') (Hex ''da'') None True start
     = (Inl (Error ''Transaction failed''),
        \<lparr>history = [EstimateFeesPerGas,
            EstimateGas \<lparr>gr_account = Hex ''51'', gr_to = Hex ''c0'', gr_data = Hex ''da'',
               gr_value = None, gr_maxFeePerGas = 41000000\<rparr>,
            SignerSendTransaction \<lparr>tx_to = Hex ''c0'', tx_data = Hex ''da'', tx_value = None,
               tx_gas = Some 21000, tx_maxFeePerGas = Some 41000000, tx_chain = Some 84532\<rparr>,
            WaitForTransactionReceipt (Hex ''d1'')],
          pendingNonce = 0\<rparr>)"
proof -
  let ?req = "\<lparr>gr_account = Hex ''51'', gr_to = Hex ''c0'', gr_data = Hex ''da'',
               gr_value = None, gr_maxFeePerGas = 41000000\<rparr>"
  let ?tx = "\<lparr>tx_to = Hex ''c0'', tx_data = Hex ''da'', tx_value = None, tx_gas = Some 21000,
              tx_maxFeePerGas = Some 41000000, tx_chain = Some 84532\<rparr>"
  let ?d1 = "perform EstimateFeesPerGas start"
  let ?d2 = "perform (EstimateGas ?req) ?d1"
  let ?d3 = "perform (SignerSendTransaction ?tx) ?d2"
  let ?d4 = "perform (WaitForTransactionReceipt (Hex ''d1'')) ?d3"
  let ?rc = "\<lparr>receipt_status = ''reverted'', receipt_logs = []\<rparr>"
  have a1: "enters_direct_path reverting_world sponsored_client (Hex ''c0'') (Hex ''da'') None True
              start start"
    by (simp add: enters_direct_path_def)
  have a2: "?req = \<lparr>gr_account = signerAddress sponsored_client, gr_to = Hex ''c0'',
                gr_data = Hex ''da'', gr_value = None, gr_maxFeePerGas = 41000000\<rparr>"
    by (simp add: sponsored_client_def)
  have a3: "?tx = \<lparr>tx_to = Hex ''c0'', tx_data = Hex ''da'', tx_value = None, tx_gas = Some 21000,
               tx_maxFeePerGas = Some 41000000,
               tx_chain = Some (chain (client_config sponsored_client))\<rparr>"
    by (simp add: sponsored_client_def base_config_def)
  have a4: "calculateGasFees reverting_world (client_config sponsored_client) start
              = (Inr 41000000, ?d1)"
    by (simp add: sponsored_client_def base_config_def calculateGasFees_def finalMaxFeePerGas_def number_minus_one io_defs
        reverting_world_def quiet_world_def or_else_def number_or_def)
  have a5: "estimateGas reverting_world ?req ?d1 = (Inr 21000, ?d2)"
    by (simp add: io_defs reverting_world_def quiet_world_def)
  have a6: "signerSendTransaction reverting_world ?tx ?d2 = (Inr (Hex ''d1''), ?d3)"
    by (simp add: io_defs reverting_world_def quiet_world_def)
  have a7: "waitForTransactionReceipt reverting_world (Hex ''d1'') ?d3 = (Inr ?rc, ?d4)"
    by (simp add: io_defs reverting_world_def quiet_world_def)
  have a8: "receipt_status ?rc \<noteq> ''success''" by simp
  show ?thesis
    using sendTransaction_receipt_failure_terminal [OF a1 a2 a3 a4 a5 a6 a7 a8]
    by (simp add: perform_def start_def)
qed

section \<open>Recovery of the job id (claim C5)\<close>

lemma find_no_match: "\<forall>y\<in>set xs. \<not> P y \<Longrightarrow> find P xs = None"
  by (induction xs) auto

lemma find_first_match:
  "xs = pre @ x # post \<Longrightarrow> \<forall>y\<in>set pre. \<not> P y \<Longrightarrow> P x \<Longrightarrow> find P xs = Some x"
  by (induction pre arbitrary: xs) auto

text \<open>
  Claim C5: given the receipt of the transaction, \<open>getJobIdFromTx\<close> takes the first log
  whose address equals the configured contract address, compared in lower case, and returns
  the integer decoded from that log's data; when no log is at the contract address it throws
  \<open>Failed to get contract logs\<close>. A \<open>createJob\<close> whose dispatch succeeds returns the
  transaction hash with the recovered job id.
\<close>

theorem getJobIdFromTx_first_contract_log:
  assumes "getTransactionReceipt w hash s = (Inr rc, s1)"
  shows "(receipt_logs rc = pre @ l # post
            \<and> (\<forall>x\<in>set pre. toLowerCase (log_address x)
                               \<noteq> toLowerCase (contractAddress (client_config c)))
            \<and> toLowerCase (log_address l) = toLowerCase (contractAddress (client_config c))
          \<longrightarrow> getJobIdFromTx w c hash s = (w_fromHexNumber w (log_data l), s1))
       \<and> ((\<forall>x\<in>set (receipt_logs rc). toLowerCase (log_address x)
                               \<noteq> toLowerCase (contractAddress (client_config c)))
          \<longrightarrow> getJobIdFromTx w c hash s = (Inl (Error ''Failed to get contract logs''), s1))
       \<and> (w_encodeFunctionData w (CreateJob provider evaluator (expireAt div 1000)) = Inr data
            \<and> sendTransaction w c (contractAddress (client_config c)) data None False s0
                = (Inr hash, s)
            \<and> getJobIdFromTx w c hash s = (Inr n, s1)
          \<longrightarrow> createJob w c provider evaluator expireAt s0
                = (Inr \<lparr>txHash = hash, jobId = n\<rparr>, s1))"
proof -
  have first: "receipt_logs rc = pre @ l # post
            \<and> (\<forall>x\<in>set pre. toLowerCase (log_address x)
                               \<noteq> toLowerCase (contractAddress (client_config c)))
            \<and> toLowerCase (log_address l) = toLowerCase (contractAddress (client_config c))
          \<Longrightarrow> getJobIdFromTx w c hash s = (w_fromHexNumber w (log_data l), s1)"
    using assms
    find_first_match [of "receipt_logs rc" pre l post
          "\<lambda>log. toLowerCase (log_address log) = toLowerCase (contractAddress (client_config c))"]
    by (simp add: getJobIdFromTx_def)
  have none: "(\<forall>x\<in>set (receipt_logs rc). toLowerCase (log_address x)
                               \<noteq> toLowerCase (contractAddress (client_config c)))
          \<Longrightarrow> getJobIdFromTx w c hash s = (Inl (Error ''Failed to get contract logs''), s1)"
    using assms
    find_no_match [of "receipt_logs rc"
          "\<lambda>log. toLowerCase (log_address log) = toLowerCase (contractAddress (client_config c))"]
    by (simp add: getJobIdFromTx_def)
  have job: "w_encodeFunctionData w (CreateJob provider evaluator (expireAt div 1000)) = Inr data
            \<and> sendTransaction w c (contractAddress (client_config c)) data None False s0
                = (Inr hash, s)
            \<and> getJobIdFromTx w c hash s = (Inr n, s1)
          \<Longrightarrow> createJob w c provider evaluator expireAt s0
                = (Inr \<lparr>txHash = hash, jobId = n\<rparr>, s1)"
    by (simp add: createJob_def)
  show ?thesis
    by (intro conjI impI) (erule first, erule none, erule job)
qed

theorem getJobIdFromTx_first_contract_log_witness:
  "createJob job_world eoa_client provider_a evaluator_b 1700000000999 start
     = (Inr \<lparr>txHash = Hex ''d1'', jobId = 42\<rparr>,
        \<lparr>history =
           [EstimateFeesPerGas,
            EstimateGas \<lparr>gr_account = Hex ''51'', gr_to = Hex ''AcP1'', gr_data = Hex ''c0de'',
                         gr_value = None, gr_maxFeePerGas = 41000000\<rparr>,
            SignerSendTransaction \<lparr>tx_to = Hex ''AcP1'', tx_data = Hex ''c0de'',
                         tx_value = None, tx_gas = Some 21000, tx_maxFeePerGas = Some 41000000,
                         tx_chain = Some 84532\<rparr>,
            WaitForTransactionReceipt (Hex ''d1''),
            GetTransactionReceipt (Hex ''d1'')],
          pendingNonce = 0\<rparr>)
   \<and> getJobIdFromTx quiet_world eoa_client (Hex ''d1'') start
     = (Inl (Error ''Failed to get contract logs''),
        \<lparr>history = [GetTransactionReceipt (Hex ''d1'')], pendingNonce = 0\<rparr>)"
proof -
  let ?sent = "\<lparr>history =
           [EstimateFeesPerGas,
            EstimateGas \<lparr>gr_account = Hex ''51'', gr_to = Hex ''AcP1'', gr_data = Hex ''c0de'',
                         gr_value = None, gr_maxFeePerGas = 41000000\<rparr>,
            SignerSendTransaction \<lparr>tx_to = Hex ''AcP1'', tx_data = Hex ''c0de'',
                         tx_value = None, tx_gas = Some 21000, tx_maxFeePerGas = Some 41000000,
                         tx_chain = Some 84532\<rparr>,
            WaitForTransactionReceipt (Hex ''d1'')],
          pendingNonce = 0\<rparr>"
  let ?read = "perform (GetTransactionReceipt (Hex ''d1'')) ?sent"
  let ?token = "\<lparr>log_address = Hex ''70cE'',
          log_data = Hex ''0000000000000000000000000000000000000000000000000000000000000007''\<rparr>"
  let ?job = "\<lparr>log_address = Hex ''acp1'',
          log_data = Hex ''000000000000000000000000000000000000000000000000000000000000002a''\<rparr>"
  have receipt: "getTransactionReceipt job_world (Hex ''d1'') ?sent = (Inr job_receipt, ?read)"
    by (simp add: getTransactionReceipt_def job_world_def)
  have logs: "receipt_logs job_receipt = [?token] @ ?job # []
            \<and> (\<forall>x\<in>set [?token]. toLowerCase (log_address x)
                               \<noteq> toLowerCase (contractAddress (client_config eoa_client)))
            \<and> toLowerCase (log_address ?job) = toLowerCase (contractAddress (client_config eoa_client))"
    by (simp add: job_receipt_def eoa_client_def base_config_def lower_char_def)
  have decode: "w_fromHexNumber job_world (log_data ?job) = Inr 42"
    by (simp add: job_world_def hex_digit_def)
  note facts = getJobIdFromTx_first_contract_log [OF receipt]
  have found: "getJobIdFromTx job_world eoa_client (Hex ''d1'') ?sent = (Inr 42, ?read)"
    using facts [THEN conjunct1, rule_format, OF logs] decode by simp
  have encoded: "w_encodeFunctionData job_world
                    (CreateJob provider_a evaluator_b (1700000000999 div 1000)) = Inr (Hex ''c0de'')"
    by (simp add: job_world_def quiet_world_def checking_encoder.simps provider_a_def
        evaluator_b_def is_address_def is_uint256_def hex_digit_def)
  have sent: "sendTransaction job_world eoa_client (contractAddress (client_config eoa_client))
               (Hex ''c0de'') None False start = (Inr (Hex ''d1''), ?sent)"
    by (simp add: sendTransaction_def sendTransactionDirect_def calculateGasFees_def
        finalMaxFeePerGas_def number_minus_one job_world_def quiet_world_def eoa_client_def base_config_def io_defs
        or_else_def number_or_def start_def)
  have created: "createJob job_world eoa_client provider_a evaluator_b 1700000000999 start
                   = (Inr \<lparr>txHash = Hex ''d1'', jobId = 42\<rparr>, ?read)"
    using facts [THEN conjunct2, THEN conjunct2, rule_format,
        OF conjI [OF encoded conjI [OF sent found]]] .
  have empty: "getTransactionReceipt quiet_world (Hex ''d1'') start
              = (Inr \<lparr>receipt_status = ''success'', receipt_logs = []\<rparr>,
                 perform (GetTransactionReceipt (Hex ''d1'')) start)"
    by (simp add: getTransactionReceipt_def quiet_world_def)
  have missing: "getJobIdFromTx quiet_world eoa_client (Hex ''d1'') start
                   = (Inl (Error ''Failed to get contract logs''),
                      perform (GetTransactionReceipt (Hex ''d1'')) start)"
    using getJobIdFromTx_first_contract_log [OF empty, THEN conjunct2, THEN conjunct1] by simp
  show ?thesis
    using created missing by (simp add: perform_def start_def)
qed


section \<open>Batch dispatch (claim C8)\<close>

lemma lane_append [simp]: "lane (xs @ ys) = lane xs @ lane ys"
  by (induction xs rule: lane.induct) simp_all

lemma settled_lane_simps [simp]:
  "settled_lane [] hs = []"
  "settled_lane (t # ts) (h # hs) = Submitted t # Settled h # settled_lane ts hs"
  by (simp_all add: settled_lane_def)

lemma sendTransactionDirect_fails:
  assumes "dispatch_fails w c (history s) t e h2"
  shows "sendTransactionDirect w c (bt_to t) (bt_data t) (bt_value t) s
           = (Inl e, s\<lparr>history := h2\<rparr>)"
  using assms
  by cases
     (simp_all add: sendTransactionDirect_def calculateGasFees_def io_defs direct_request_def
        direct_tx_def)

lemma dispatch_fails_tail:
  assumes "dispatch_fails w c h t e h2"
  shows "\<exists>tail. h2 = h @ tail \<and> failed_tail t (lane tail)"
  using assms
  by cases (simp_all add: failed_tail_def direct_tx_def)

lemma settles_in_order_lane:
  assumes "settles_in_order w c h sent hashes h1"
  shows "length hashes = length sent
         \<and> (\<exists>evs. h1 = h @ evs \<and> lane evs = settled_lane sent hashes)"
  using assms
proof (induction rule: settles_in_order.induct)
  case (all_settled h)
  then show ?case by simp
next
  case (next_settled h b p fee req t gas tx hash rc txs hashes h')
  then obtain evs where
    "h' = (h @ [EstimateFeesPerGas, EstimateGas req, SignerSendTransaction tx,
                WaitForTransactionReceipt hash]) @ evs"
    and "lane evs = settled_lane txs hashes" and "length hashes = length txs"
    by blast
  then show ?case
    using next_settled.hyps(5)
    by (intro conjI exI[of _ "[EstimateFeesPerGas, EstimateGas req, SignerSendTransaction tx,
                               WaitForTransactionReceipt hash] @ evs"])
       (simp_all add: direct_tx_def)
qed

lemma sendBatchLoop_settles:
  assumes "settles_in_order w c h sent hashes h1" and "history s = h"
  shows "sendBatchLoop w c (sent @ rest) acc s
           = sendBatchLoop w c rest (acc @ hashes) (s\<lparr>history := h1\<rparr>)"
  using assms
proof (induction arbitrary: s acc rule: settles_in_order.induct)
  case (all_settled h)
  then have "s\<lparr>history := h\<rparr> = s" by (cases s) simp
  then show ?case by simp
next
  case (next_settled h b p fee req t gas tx hash rc txs hashes h')
  let ?h = "h @ [EstimateFeesPerGas, EstimateGas req, SignerSendTransaction tx,
                 WaitForTransactionReceipt hash]"
  have one: "sendTransactionDirect w c (bt_to t) (bt_data t) (bt_value t) s
               = (Inr hash, s\<lparr>history := ?h\<rparr>)"
    using next_settled.hyps(1-8) next_settled.prems
    by (simp add: sendTransactionDirect_def calculateGasFees_def io_defs direct_request_def
        direct_tx_def)
  have "sendBatchLoop w c (txs @ rest) (acc @ [hash]) (s\<lparr>history := ?h\<rparr>)
          = sendBatchLoop w c rest ((acc @ [hash]) @ hashes) (s\<lparr>history := ?h\<rparr>\<lparr>history := h'\<rparr>)"
    by (rule next_settled.IH) simp
  then show ?case using one by simp
qed

text \<open>
  Every request either settles or fails, so every batch is a run of requests that settle in
  order, followed by nothing or by a request that fails.
\<close>

lemma dispatch_settles_or_fails:
  "(\<exists>b p fee gas hash rc.
       w_estimateFeesPerGas w h = Inr (b, p)
     \<and> finalMaxFeePerGas (client_config c) b p = Inr fee
     \<and> w_estimateGas w (h @ [EstimateFeesPerGas]) (direct_request c t fee) = Inr gas
     \<and> w_signerSendTransaction w
          (h @ [EstimateFeesPerGas, EstimateGas (direct_request c t fee)])
          (direct_tx c t fee gas) = Inr hash
     \<and> w_waitForTransactionReceipt w
          (h @ [EstimateFeesPerGas, EstimateGas (direct_request c t fee),
                SignerSendTransaction (direct_tx c t fee gas)]) hash = Inr rc
     \<and> receipt_status rc = ''success'')
   \<or> (\<exists>e h2. dispatch_fails w c h t e h2)"
proof (cases "w_estimateFeesPerGas w h")
  case (Inl e)
  then show ?thesis by (blast intro: dispatch_fails.fee_query_throws)
next
  case fees: (Inr bp)
  obtain b p where bp: "w_estimateFeesPerGas w h = Inr (b, p)"
    using fees by (cases bp) simp
  show ?thesis
  proof (cases "finalMaxFeePerGas (client_config c) b p")
    case (Inl e)
    with bp show ?thesis by (blast intro: dispatch_fails.fee_value_throws)
  next
    case fee: (Inr fee)
    show ?thesis
    proof (cases "w_estimateGas w (h @ [EstimateFeesPerGas]) (direct_request c t fee)")
      case (Inl e)
      with bp fee show ?thesis by (blast intro: dispatch_fails.gas_estimate_throws)
    next
      case gas: (Inr gas)
      show ?thesis
      proof (cases "w_signerSendTransaction w
          (h @ [EstimateFeesPerGas, EstimateGas (direct_request c t fee)])
          (direct_tx c t fee gas)")
        case (Inl e)
        with bp fee gas show ?thesis by (blast intro: dispatch_fails.signer_throws)
      next
        case hash: (Inr hash)
        show ?thesis
        proof (cases "w_waitForTransactionReceipt w
          (h @ [EstimateFeesPerGas, EstimateGas (direct_request c t fee),
                SignerSendTransaction (direct_tx c t fee gas)]) hash")
          case (Inl e)
          with bp fee gas hash show ?thesis by (blast intro: dispatch_fails.receipt_wait_throws)
        next
          case rc: (Inr rc)
          show ?thesis
          proof (cases "receipt_status rc = ''success''")
            case True
            with bp fee gas hash rc show ?thesis by blast
          next
            case False
            with bp fee gas hash rc show ?thesis
              by (blast intro: dispatch_fails.receipt_not_success)
          qed
        qed
      qed
    qed
  qed
qed

lemma batch_settles_or_fails:
  "\<exists>sent hashes h1. settles_in_order w c h sent hashes h1
      \<and> (sent = txs
          \<or> (\<exists>t unsent e h2. txs = sent @ t # unsent \<and> dispatch_fails w c h1 t e h2))"
proof (induction txs arbitrary: h)
  case Nil
  then show ?case by (blast intro: settles_in_order.all_settled)
next
  case (Cons t txs)
  from dispatch_settles_or_fails [of w h c t] show ?case
  proof
    assume "\<exists>e h2. dispatch_fails w c h t e h2"
    then obtain e h2 where "dispatch_fails w c h t e h2" by blast
    then have "settles_in_order w c h [] [] h
               \<and> (\<exists>t' unsent e h2. t # txs = [] @ t' # unsent \<and> dispatch_fails w c h t' e h2)"
      by (auto intro: settles_in_order.all_settled)
    then show ?thesis by blast
  next
    assume "\<exists>b p fee gas hash rc.
       w_estimateFeesPerGas w h = Inr (b, p)
     \<and> finalMaxFeePerGas (client_config c) b p = Inr fee
     \<and> w_estimateGas w (h @ [EstimateFeesPerGas]) (direct_request c t fee) = Inr gas
     \<and> w_signerSendTransaction w
          (h @ [EstimateFeesPerGas, EstimateGas (direct_request c t fee)])
          (direct_tx c t fee gas) = Inr hash
     \<and> w_waitForTransactionReceipt w
          (h @ [EstimateFeesPerGas, EstimateGas (direct_request c t fee),
                SignerSendTransaction (direct_tx c t fee gas)]) hash = Inr rc
     \<and> receipt_status rc = ''success''"
    then obtain b p fee gas hash rc where ok:
      "w_estimateFeesPerGas w h = Inr (b, p)"
      "finalMaxFeePerGas (client_config c) b p = Inr fee"
      "w_estimateGas w (h @ [EstimateFeesPerGas]) (direct_request c t fee) = Inr gas"
      "w_signerSendTransaction w
          (h @ [EstimateFeesPerGas, EstimateGas (direct_request c t fee)])
          (direct_tx c t fee gas) = Inr hash"
      "w_waitForTransactionReceipt w
          (h @ [EstimateFeesPerGas, EstimateGas (direct_request c t fee),
                SignerSendTransaction (direct_tx c t fee gas)]) hash = Inr rc"
      "receipt_status rc = ''success''"
      by blast
    let ?h = "h @ [EstimateFeesPerGas, EstimateGas (direct_request c t fee),
                   SignerSendTransaction (direct_tx c t fee gas), WaitForTransactionReceipt hash]"
    from Cons.IH [of ?h] obtain sent hashes h1 where
      run: "settles_in_order w c ?h sent hashes h1"
      and rest: "sent = txs
          \<or> (\<exists>t' unsent e h2. txs = sent @ t' # unsent \<and> dispatch_fails w c h1 t' e h2)"
      by blast
    have "settles_in_order w c h (t # sent) (hash # hashes) h1"
      using ok(1,2) refl ok(3) refl ok(4,5,6) run by (rule settles_in_order.next_settled)
    moreover have "t # sent = t # txs
          \<or> (\<exists>t' unsent e h2. t # txs = (t # sent) @ t' # unsent
                \<and> dispatch_fails w c h1 t' e h2)"
      using rest by auto
    ultimately show ?thesis by blast
  qed
qed

text \<open>
  Claim C8: \<open>sendBatchTransactions\<close> dispatches the requests one after the other.
  When the world lets the requests of a list settle in order, the batch returns exactly one
  hash per request, in request order, and on the lane each submission is followed by the
  wait for its receipt before the next submission. When the world then makes the next
  request fail, the batch throws the error with the number of that request; the history
  ends where that request failed: the failed request was submitted at most once, and none of
  the requests after it has been submitted.
\<close>

theorem sendBatchTransactions_sequential:
  assumes "settles_in_order w c (history s) sent hashes h1"
  shows "sendBatchTransactions w c sent s = (Inr hashes, s\<lparr>history := h1\<rparr>)
       \<and> length hashes = length sent
       \<and> (\<exists>evs. h1 = history s @ evs \<and> lane evs = settled_lane sent hashes)
       \<and> (dispatch_fails w c h1 t e h2 \<longrightarrow>
            sendBatchTransactions w c (sent @ t # unsent) s
              = (Inl (batch_error (length sent + 1) e), s\<lparr>history := h2\<rparr>)
            \<and> (\<exists>tail. h2 = h1 @ tail \<and> failed_tail t (lane tail)))"
proof -
  have all: "sendBatchTransactions w c sent s = (Inr hashes, s\<lparr>history := h1\<rparr>)"
    using sendBatchLoop_settles [OF assms refl, of "[]" "[]"]
    by (simp add: sendBatchTransactions_def)
  have len: "length hashes = length sent"
    and lane: "\<exists>evs. h1 = history s @ evs \<and> lane evs = settled_lane sent hashes"
    using settles_in_order_lane [OF assms] by simp_all
  have stop: "sendBatchTransactions w c (sent @ t # unsent) s
              = (Inl (batch_error (length sent + 1) e), s\<lparr>history := h2\<rparr>)"
    if fails: "dispatch_fails w c h1 t e h2"
  proof -
    have "dispatch_fails w c (history (s\<lparr>history := h1\<rparr>)) t e h2" using fails by simp
    from sendTransactionDirect_fails [OF this]
    have "sendBatchLoop w c (t # unsent) ([] @ hashes) (s\<lparr>history := h1\<rparr>)
            = (Inl (batch_error (length sent + 1) e), s\<lparr>history := h2\<rparr>)"
      using len by (simp add: batch_error_def)
    then show ?thesis
      using sendBatchLoop_settles [OF assms refl, of "t # unsent" "[]"]
      by (simp add: sendBatchTransactions_def)
  qed
  show ?thesis
    using all len lane stop dispatch_fails_tail [of w c h1 t e h2] by blast
qed

lemma eoa_fee: "finalMaxFeePerGas (client_config eoa_client) 100 7 = Inr 41000000"
  by (simp add: finalMaxFeePerGas_def number_minus_one eoa_client_def base_config_def or_else_def number_or_def)

theorem sendBatchTransactions_sequential_witness:
  "sendBatchTransactions quiet_world eoa_client three_requests start
     = (Inr [Hex ''d1'', Hex ''d1'', Hex ''d1''],
        \<lparr>history =
           [EstimateFeesPerGas,
            EstimateGas \<lparr>gr_account = Hex ''51'', gr_to = Hex ''c0'', gr_data = Hex ''01'',
                         gr_value = None, gr_maxFeePerGas = 41000000\<rparr>,
            SignerSendTransaction \<lparr>tx_to = Hex ''c0'', tx_data = Hex ''01'', tx_value = None,
                         tx_gas = Some 21000, tx_maxFeePerGas = Some 41000000,
                         tx_chain = Some 84532\<rparr>,
            WaitForTransactionReceipt (Hex ''d1''),
            EstimateFeesPerGas,
            EstimateGas \<lparr>gr_account = Hex ''51'', gr_to = Hex ''c0'', gr_data = Hex ''02'',
                         gr_value = None, gr_maxFeePerGas = 41000000\<rparr>,
            SignerSendTransaction \<lparr>tx_to = Hex ''c0'', tx_data = Hex ''02'', tx_value = None,
                         tx_gas = Some 21000, tx_maxFeePerGas = Some 41000000,
                         tx_chain = Some 84532\<rparr>,
            WaitForTransactionReceipt (Hex ''d1''),
            EstimateFeesPerGas,
            EstimateGas \<lparr>gr_account = Hex ''51'', gr_to = Hex ''c0'', gr_data = Hex ''03'',
                         gr_value = Some 9, gr_maxFeePerGas = 41000000\<rparr>,
            SignerSendTransaction \<lparr>tx_to = Hex ''c0'', tx_data = Hex ''03'', tx_value = Some 9,
                         tx_gas = Some 21000, tx_maxFeePerGas = Some 41000000,
                         tx_chain = Some 84532\<rparr>,
            WaitForTransactionReceipt (Hex ''d1'')],
         pendingNonce = 0\<rparr>)
   \<and> sendBatchTransactions second_reverts_world eoa_client three_requests start
     = (Inl (Error ''Batch failed at transaction 2: Error: Transaction failed''),
        \<lparr>history =
           [EstimateFeesPerGas,
            EstimateGas \<lparr>gr_account = Hex ''51'', gr_to = Hex ''c0'', gr_data = Hex ''01'',
                         gr_value = None, gr_maxFeePerGas = 41000000\<rparr>,
            SignerSendTransaction \<lparr>tx_to = Hex ''c0'', tx_data = Hex ''01'', tx_value = None,
                         tx_gas = Some 21000, tx_maxFeePerGas = Some 41000000,
                         tx_chain = Some 84532\<rparr>,
            WaitForTransactionReceipt (Hex ''d1''),
            EstimateFeesPerGas,
            EstimateGas \<lparr>gr_account = Hex ''51'', gr_to = Hex ''c0'', gr_data = Hex ''02'',
                         gr_value = None, gr_maxFeePerGas = 41000000\<rparr>,
            SignerSendTransaction \<lparr>tx_to = Hex ''c0'', tx_data = Hex ''02'', tx_value = None,
                         tx_gas = Some 21000, tx_maxFeePerGas = Some 41000000,
                         tx_chain = Some 84532\<rparr>,
            WaitForTransactionReceipt (Hex ''d1'')],
         pendingNonce = 0\<rparr>)"
proof -
  let ?t1 = "\<lparr>bt_to = Hex ''c0'', bt_data = Hex ''01'', bt_value = None\<rparr>"
  let ?t2 = "\<lparr>bt_to = Hex ''c0'', bt_data = Hex ''02'', bt_value = None\<rparr>"
  let ?t3 = "\<lparr>bt_to = Hex ''c0'', bt_data = Hex ''03'', bt_value = Some 9\<rparr>"
  let ?l1 = "[EstimateFeesPerGas, EstimateGas (direct_request eoa_client ?t1 41000000),
              SignerSendTransaction (direct_tx eoa_client ?t1 41000000 21000),
              WaitForTransactionReceipt (Hex ''d1'')]"
  let ?l2 = "[EstimateFeesPerGas, EstimateGas (direct_request eoa_client ?t2 41000000),
              SignerSendTransaction (direct_tx eoa_client ?t2 41000000 21000),
              WaitForTransactionReceipt (Hex ''d1'')]"
  let ?l3 = "[EstimateFeesPerGas, EstimateGas (direct_request eoa_client ?t3 41000000),
              SignerSendTransaction (direct_tx eoa_client ?t3 41000000 21000),
              WaitForTransactionReceipt (Hex ''d1'')]"
  let ?good = "\<lparr>receipt_status = ''success'', receipt_logs = []\<rparr>"
  let ?bad = "\<lparr>receipt_status = ''reverted'', receipt_logs = []\<rparr>"
  have quiet: "settles_in_order quiet_world eoa_client h (t # txs) (Hex ''d1'' # hs) h'"
    if "settles_in_order quiet_world eoa_client
          (h @ [EstimateFeesPerGas, EstimateGas (direct_request eoa_client t 41000000),
                SignerSendTransaction (direct_tx eoa_client t 41000000 21000),
                WaitForTransactionReceipt (Hex ''d1'')]) txs hs h'" for h t txs hs h'
    using that
    by (intro settles_in_order.next_settled [where b = 100 and p = 7 and fee = 41000000
          and gas = 21000 and rc = ?good, OF _ eoa_fee refl _ refl])
       (simp_all add: quiet_world_def)
  have three: "settles_in_order quiet_world eoa_client (history start) three_requests
                 [Hex ''d1'', Hex ''d1'', Hex ''d1''] (?l1 @ ?l2 @ ?l3)"
    unfolding three_requests_def
    by (intro quiet) (simp add: start_def settles_in_order.all_settled)
  have first: "settles_in_order second_reverts_world eoa_client (history start) [?t1]
                 [Hex ''d1''] ?l1"
    by (intro settles_in_order.next_settled [where b = 100 and p = 7 and fee = 41000000
          and gas = 21000 and rc = ?good, OF _ eoa_fee refl _ refl])
       (simp_all add: second_reverts_world_def quiet_world_def start_def
          settles_in_order.all_settled)
  have second: "dispatch_fails second_reverts_world eoa_client ?l1 ?t2
                  (Error ''Transaction failed'') (?l1 @ ?l2)"
    using dispatch_fails.receipt_not_success [where w = second_reverts_world and c = eoa_client
        and h = ?l1 and t = ?t2 and b = 100 and p = 7 and fee = 41000000 and gas = 21000
        and hash = "Hex ''d1''" and rc = ?bad, OF _ eoa_fee refl _ refl]
    by (simp add: second_reverts_world_def quiet_world_def)
  have "string_of_nat 2 = ''2''" by code_simp
  then have two: "string_of_nat (Suc (Suc 0)) = ''2''" by (simp add: numeral_2_eq_2)
  have split: "three_requests = [?t1] @ ?t2 # [?t3]" by (simp add: three_requests_def)
  show ?thesis
    using sendBatchTransactions_sequential [OF three, THEN conjunct1]
      sendBatchTransactions_sequential [OF first, THEN conjunct2, THEN conjunct2,
        THEN conjunct2, rule_format, OF second, THEN conjunct1, of "[?t3]"]
    unfolding split [symmetric]
    by (simp add: start_def direct_request_def direct_tx_def eoa_client_def base_config_def
        batch_error_def error_to_string_def two)
qed


section \<open>Fund transfers (claims C9, C10)\<close>

lemma checking_encoder_transfer:
  "checking_encoder (Erc20Transfer bob 5) = Inr (Hex ''a9059cbb'')"
  "checking_encoder (Erc20Transfer bob 100) = Inr (Hex ''a9059cbb'')"
  "checking_encoder (Erc20Transfer bob (- 5)) = Inl integer_out_of_range"
  "checking_encoder (Erc20Transfer (Hex ''b0b'') 100) = Inl invalid_address"
  by (simp_all add: checking_encoder.simps bob_def is_address_def is_uint256_def hex_digit_def)

text \<open>
  Claim C10 as stated fails: \<open>amount\<close> is a \<open>bigint\<close>, and for the amount \<open>-5\<close>
  the ERC-20 branch sends no transaction at all. The encoder refuses a negative
  \<open>uint256\<close>, the error leaves \<open>transferFunds\<close>, and the session signer is never
  called.
\<close>

theorem transferFunds_encoding_failure_counterexample:
  "\<not> isNativeToken \<lparr>toAddress = bob, amount = - 5, tokenAddress = Some token_c,
                      isNativeToken = False\<rparr>
   \<and> w_encodeFunctionData quiet_world (Erc20Transfer bob (- 5)) = Inl integer_out_of_range
   \<and> transferFunds quiet_world
        \<lparr>toAddress = bob, amount = - 5, tokenAddress = Some token_c, isNativeToken = False\<rparr> start
      = (Inl integer_out_of_range, \<lparr>history = [], pendingNonce = 0\<rparr>)"
  by (simp add: transferFunds_def quiet_world_def start_def checking_encoder_transfer)

text \<open>
  Claim C10, amended: \<open>transferFunds\<close> sends the native transfer (value \<open>amount\<close>,
  data \<open>0x\<close>, to \<open>toAddress\<close>) exactly when \<open>isNativeToken\<close> is true or there
  is no token address; otherwise it encodes the ERC-20 call \<open>transfer(toAddress, amount)\<close>
  and, when the encoding succeeds, sends it to the token address with value 0. In these two
  cases the session signer is called exactly once and its answer is returned unchanged. When
  the encoding throws, \<open>transferFunds\<close> throws the same error and the session signer is
  not called.
\<close>

theorem transferFunds_branches:
  "(isNativeToken p \<or> tokenAddress p = None \<longrightarrow>
      transferFunds w p s
        = (w_signerSendTransaction w (history s)
             \<lparr>tx_to = toAddress p, tx_data = Hex [], tx_value = Some (amount p),
              tx_gas = None, tx_maxFeePerGas = None, tx_chain = None\<rparr>,
           s\<lparr>history := history s @
               [SignerSendTransaction
                  \<lparr>tx_to = toAddress p, tx_data = Hex [], tx_value = Some (amount p),
                   tx_gas = None, tx_maxFeePerGas = None, tx_chain = None\<rparr>]\<rparr>))
   \<and> (\<not> isNativeToken p \<and> tokenAddress p = Some token
        \<and> w_encodeFunctionData w (Erc20Transfer (toAddress p) (amount p)) = Inr data \<longrightarrow>
      transferFunds w p s
        = (w_signerSendTransaction w (history s)
             \<lparr>tx_to = token, tx_data = data, tx_value = Some 0,
              tx_gas = None, tx_maxFeePerGas = None, tx_chain = None\<rparr>,
           s\<lparr>history := history s @
               [SignerSendTransaction
                  \<lparr>tx_to = token, tx_data = data, tx_value = Some 0,
                   tx_gas = None, tx_maxFeePerGas = None, tx_chain = None\<rparr>]\<rparr>))
   \<and> (\<not> isNativeToken p \<and> tokenAddress p = Some token
        \<and> w_encodeFunctionData w (Erc20Transfer (toAddress p) (amount p)) = Inl e \<longrightarrow>
      transferFunds w p s = (Inl e, s))"
proof (intro conjI impI)
  assume "isNativeToken p \<or> tokenAddress p = None"
  then show "transferFunds w p s
        = (w_signerSendTransaction w (history s)
             \<lparr>tx_to = toAddress p, tx_data = Hex [], tx_value = Some (amount p),
              tx_gas = None, tx_maxFeePerGas = None, tx_chain = None\<rparr>,
           s\<lparr>history := history s @
               [SignerSendTransaction
                  \<lparr>tx_to = toAddress p, tx_data = Hex [], tx_value = Some (amount p),
                   tx_gas = None, tx_maxFeePerGas = None, tx_chain = None\<rparr>]\<rparr>)"
    by (auto simp: transferFunds_def Let_def signerSendTransaction_def perform_def
        split: option.splits)
next
  assume "\<not> isNativeToken p \<and> tokenAddress p = Some token
        \<and> w_encodeFunctionData w (Erc20Transfer (toAddress p) (amount p)) = Inr data"
  then show "transferFunds w p s
        = (w_signerSendTransaction w (history s)
             \<lparr>tx_to = token, tx_data = data, tx_value = Some 0,
              tx_gas = None, tx_maxFeePerGas = None, tx_chain = None\<rparr>,
           s\<lparr>history := history s @
               [SignerSendTransaction
                  \<lparr>tx_to = token, tx_data = data, tx_value = Some 0,
                   tx_gas = None, tx_maxFeePerGas = None, tx_chain = None\<rparr>]\<rparr>)"
    by (simp add: transferFunds_def Let_def signerSendTransaction_def perform_def)
next
  assume "\<not> isNativeToken p \<and> tokenAddress p = Some token
        \<and> w_encodeFunctionData w (Erc20Transfer (toAddress p) (amount p)) = Inl e"
  then show "transferFunds w p s = (Inl e, s)"
    by (simp add: transferFunds_def Let_def)
qed

theorem transferFunds_branches_witness:
  "transferFunds quiet_world
      \<lparr>toAddress = bob, amount = 5, tokenAddress = Some token_c, isNativeToken = True\<rparr> start
     = (Inr (Hex ''d1''),
        \<lparr>history = [SignerSendTransaction
            \<lparr>tx_to = bob, tx_data = Hex [], tx_value = Some 5,
             tx_gas = None, tx_maxFeePerGas = None, tx_chain = None\<rparr>], pendingNonce = 0\<rparr>)
   \<and> transferFunds quiet_world
      \<lparr>toAddress = bob, amount = 5, tokenAddress = Some token_c, isNativeToken = False\<rparr> start
     = (Inr (Hex ''d1''),
        \<lparr>history = [SignerSendTransaction
            \<lparr>tx_to = token_c, tx_data = Hex ''a9059cbb'', tx_value = Some 0,
             tx_gas = None, tx_maxFeePerGas = None, tx_chain = None\<rparr>], pendingNonce = 0\<rparr>)
   \<and> transferFunds quiet_world
      \<lparr>toAddress = Hex ''b0b'', amount = 100, tokenAddress = Some token_c, isNativeToken = False\<rparr>
      start
     = (Inl invalid_address, \<lparr>history = [], pendingNonce = 0\<rparr>)"
proof -
  let ?n = "\<lparr>toAddress = bob, amount = 5, tokenAddress = Some token_c, isNativeToken = True\<rparr>"
  let ?e = "\<lparr>toAddress = bob, amount = 5, tokenAddress = Some token_c, isNativeToken = False\<rparr>"
  let ?x = "\<lparr>toAddress = Hex ''b0b'', amount = 100, tokenAddress = Some token_c,
             isNativeToken = False\<rparr>"
  have n: "isNativeToken ?n \<or> tokenAddress ?n = None" by simp
  have e: "\<not> isNativeToken ?e \<and> tokenAddress ?e = Some token_c
           \<and> w_encodeFunctionData quiet_world (Erc20Transfer (toAddress ?e) (amount ?e))
               = Inr (Hex ''a9059cbb'')"
    by (simp add: quiet_world_def checking_encoder_transfer)
  have x: "\<not> isNativeToken ?x \<and> tokenAddress ?x = Some token_c
           \<and> w_encodeFunctionData quiet_world (Erc20Transfer (toAddress ?x) (amount ?x))
               = Inl invalid_address"
    by (simp add: quiet_world_def checking_encoder_transfer)
  show ?thesis
    using transferFunds_branches [where p = ?n and w = quiet_world and s = start,
        THEN conjunct1, rule_format, OF n]
      transferFunds_branches [where p = ?e and w = quiet_world and s = start,
        THEN conjunct2, THEN conjunct1, rule_format, OF e]
      transferFunds_branches [where p = ?x and w = quiet_world and s = start,
        THEN conjunct2, THEN conjunct2, rule_format, OF x]
    by (simp add: quiet_world_def start_def)
qed

text \<open>
  Claim C9 as stated fails: with a token address, a balance of 100 and a recipient that is
  not an address (\<open>0xb0b\<close>), \<open>transferAllBalance\<close> does not transfer the balance: the
  encoding of the \<open>transfer\<close> call throws, and the balance query is the only call made.
\<close>

theorem transferAllBalance_invalid_recipient_counterexample:
  "w_readBalanceOf (funded_world 100) (history start) token_c (Hex ''51'') = Inr 100
   \<and> transferAllBalance (funded_world 100) (Hex ''51'') (Hex ''b0b'') (Some token_c) 30 start
      = (Inl invalid_address,
         \<lparr>history = [ReadBalanceOf token_c (Hex ''51'')], pendingNonce = 0\<rparr>)"
  by (simp add: transferAllBalance_def transferFunds_def getBalance_def funded_world_def
      quiet_world_def perform_def start_def checking_encoder_transfer)

text \<open>
  Claim C9, amended: \<open>transferAllBalance\<close> queries the balance once and throws when it
  is exactly zero; for a native transfer (no token address) with a positive
  \<open>keepGasReserve\<close> it throws when the balance is at most the reserve and otherwise hands
  the session signer one native transfer of the balance less the reserve; for an ERC-20
  transfer it ignores the reserve and encodes a \<open>transfer\<close> of the whole balance, which it
  hands to the session signer when the encoding succeeds; when the encoding throws (the
  recipient is not a valid address), it throws that error. In each of these throwing cases the
  balance query is the only call made: no transaction is sent.
\<close>

theorem transferAllBalance_cases:
  assumes "(case token of None \<Rightarrow> w_getBalance w (history s) signer
                        | Some a \<Rightarrow> w_readBalanceOf w (history s) a signer) = Inr balance"
    and "s1 = s\<lparr>history := history s @ [case token of None \<Rightarrow> GetBalance signer
                                                      | Some a \<Rightarrow> ReadBalanceOf a signer]\<rparr>"
  shows "(balance = 0 \<longrightarrow>
            transferAllBalance w signer to token keepGasReserve s
              = (Inl (Error ''No balance to transfer''), s1))
       \<and> (token = None \<and> keepGasReserve > 0 \<and> balance \<noteq> 0 \<and> balance \<le> keepGasReserve \<longrightarrow>
            transferAllBalance w signer to token keepGasReserve s
              = (Inl (Error ''Balance is less than or equal to gas reserve''), s1))
       \<and> (token = None \<and> keepGasReserve > 0 \<and> balance > keepGasReserve
            \<and> tx = \<lparr>tx_to = to, tx_data = Hex [], tx_value = Some (balance - keepGasReserve),
                     tx_gas = None, tx_maxFeePerGas = None, tx_chain = None\<rparr> \<longrightarrow>
            transferAllBalance w signer to token keepGasReserve s
              = (w_signerSendTransaction w (history s1) tx,
                 s1\<lparr>history := history s1 @ [SignerSendTransaction tx]\<rparr>))
       \<and> (token = Some t \<and> balance \<noteq> 0
            \<and> w_encodeFunctionData w (Erc20Transfer to balance) = Inr data
            \<and> tx = \<lparr>tx_to = t, tx_data = data, tx_value = Some 0,
                     tx_gas = None, tx_maxFeePerGas = None, tx_chain = None\<rparr> \<longrightarrow>
            transferAllBalance w signer to token keepGasReserve s
              = (w_signerSendTransaction w (history s1) tx,
                 s1\<lparr>history := history s1 @ [SignerSendTransaction tx]\<rparr>))
       \<and> (token = Some t \<and> balance \<noteq> 0
            \<and> w_encodeFunctionData w (Erc20Transfer to balance) = Inl e \<longrightarrow>
            transferAllBalance w signer to token keepGasReserve s = (Inl e, s1))"
proof -
  have bal: "getBalance w signer token s = (Inr balance, s1)"
    using assms by (simp add: getBalance_def perform_def split: option.splits)
  show ?thesis
    using bal
    by (intro conjI impI)
       (auto simp: transferAllBalance_def transferFunds_def Let_def signerSendTransaction_def
          perform_def)
qed

theorem transferAllBalance_cases_witness:
  "transferAllBalance (funded_world 0) (Hex ''51'') bob None 0 start
     = (Inl (Error ''No balance to transfer''),
        \<lparr>history = [GetBalance (Hex ''51'')], pendingNonce = 0\<rparr>)
   \<and> transferAllBalance (funded_world 30) (Hex ''51'') bob None 30 start
     = (Inl (Error ''Balance is less than or equal to gas reserve''),
        \<lparr>history = [GetBalance (Hex ''51'')], pendingNonce = 0\<rparr>)
   \<and> transferAllBalance (funded_world 100) (Hex ''51'') bob None 30 start
     = (Inr (Hex ''d1''),
        \<lparr>history = [GetBalance (Hex ''51''),
            SignerSendTransaction \<lparr>tx_to = bob, tx_data = Hex [], tx_value = Some 70,
              tx_gas = None, tx_maxFeePerGas = None, tx_chain = None\<rparr>], pendingNonce = 0\<rparr>)
   \<and> transferAllBalance (funded_world 100) (Hex ''51'') bob (Some token_c) 30 start
     = (Inr (Hex ''d1''),
        \<lparr>history = [ReadBalanceOf token_c (Hex ''51''),
            SignerSendTransaction \<lparr>tx_to = token_c, tx_data = Hex ''a9059cbb'',
              tx_value = Some 0, tx_gas = None, tx_maxFeePerGas = None, tx_chain = None\<rparr>],
          pendingNonce = 0\<rparr>)
   \<and> transferAllBalance (funded_world 100) (Hex ''51'') (Hex ''b0b'') (Some token_c) 0 start
     = (Inl invalid_address,
        \<lparr>history = [ReadBalanceOf token_c (Hex ''51'')], pendingNonce = 0\<rparr>)"
proof -
  let ?n = "start\<lparr>history := history start @ [case None of None \<Rightarrow> GetBalance (Hex ''51'')
                                                  | Some a \<Rightarrow> ReadBalanceOf a (Hex ''51'')]\<rparr>"
  let ?t = "start\<lparr>history := history start @ [case Some token_c of None \<Rightarrow> GetBalance (Hex ''51'')
                                                  | Some a \<Rightarrow> ReadBalanceOf a (Hex ''51'')]\<rparr>"
  have b: "(case None of None \<Rightarrow> w_getBalance (funded_world k) (history start) (Hex ''51'')
                        | Some a \<Rightarrow> w_readBalanceOf (funded_world k) (history start) a (Hex ''51''))
             = Inr k" for k
    by (simp add: funded_world_def)
  have t: "(case Some token_c of None \<Rightarrow> w_getBalance (funded_world k) (history start) (Hex ''51'')
                        | Some a \<Rightarrow> w_readBalanceOf (funded_world k) (history start) a (Hex ''51''))
             = Inr k" for k
    by (simp add: funded_world_def)
  have c1: "transferAllBalance (funded_world 0) (Hex ''51'') bob None 0 start
              = (Inl (Error ''No balance to transfer''), ?n)"
    using transferAllBalance_cases [where keepGasReserve = 0 and to = bob and ?s1.0 = ?n,
        OF b [of 0] refl, THEN conjunct1] by simp
  have c2: "transferAllBalance (funded_world 30) (Hex ''51'') bob None 30 start
              = (Inl (Error ''Balance is less than or equal to gas reserve''), ?n)"
    using transferAllBalance_cases [where keepGasReserve = 30 and to = bob and ?s1.0 = ?n,
        OF b [of 30] refl, THEN conjunct2, THEN conjunct1]
    by simp
  have c3: "transferAllBalance (funded_world 100) (Hex ''51'') bob None 30 start
              = (Inr (Hex ''d1''),
                 ?n\<lparr>history := history ?n @ [SignerSendTransaction
                      \<lparr>tx_to = bob, tx_data = Hex [], tx_value = Some (100 - 30),
                       tx_gas = None, tx_maxFeePerGas = None, tx_chain = None\<rparr>]\<rparr>)"
    using transferAllBalance_cases [where keepGasReserve = 30 and to = bob and ?s1.0 = ?n
        and tx = "\<lparr>tx_to = bob, tx_data = Hex [], tx_value = Some (100 - 30),
                    tx_gas = None, tx_maxFeePerGas = None, tx_chain = None\<rparr>",
        OF b [of 100] refl, THEN conjunct2, THEN conjunct2, THEN conjunct1]
    by (simp add: funded_world_def quiet_world_def checking_encoder_transfer)
  have c4: "transferAllBalance (funded_world 100) (Hex ''51'') bob (Some token_c) 30 start
              = (Inr (Hex ''d1''),
                 ?t\<lparr>history := history ?t @ [SignerSendTransaction
                      \<lparr>tx_to = token_c, tx_data = Hex ''a9059cbb'', tx_value = Some 0,
                       tx_gas = None, tx_maxFeePerGas = None, tx_chain = None\<rparr>]\<rparr>)"
    using transferAllBalance_cases [where keepGasReserve = 30 and to = bob and ?s1.0 = ?t
        and t = token_c and data = "Hex ''a9059cbb''"
        and tx = "\<lparr>tx_to = token_c, tx_data = Hex ''a9059cbb'', tx_value = Some 0,
                    tx_gas = None, tx_maxFeePerGas = None, tx_chain = None\<rparr>",
        OF t [of 100] refl, THEN conjunct2, THEN conjunct2, THEN conjunct2, THEN conjunct1]
    by (simp add: funded_world_def quiet_world_def checking_encoder_transfer)
  have c5: "transferAllBalance (funded_world 100) (Hex ''51'') (Hex ''b0b'') (Some token_c) 0 start
              = (Inl invalid_address, ?t)"
    using transferAllBalance_cases [where keepGasReserve = 0 and to = "Hex ''b0b''"
        and ?s1.0 = ?t and t = token_c and e = invalid_address,
        OF t [of 100] refl, THEN conjunct2, THEN conjunct2, THEN conjunct2, THEN conjunct2]
    by (simp add: funded_world_def quiet_world_def checking_encoder_transfer)
  show ?thesis
    using c1 c2 c3 c4 c5 by (simp add: start_def)
qed

section \<open>Canonicalization (claim C6)\<close>

lemma set_insert_index: "set (insert_index k v obj) = insert (k, v) (set obj)"
proof (induction obj)
  case Nil
  then show ?case by simp
next
  case (Cons p obj)
  then show ?case by (cases p) (simp add: insert_commute)
qed

lemma distinct_insert_index:
  "k \<notin> fst ` set obj \<Longrightarrow> distinct (map fst obj) \<Longrightarrow> distinct (map fst (insert_index k v obj))"
proof (induction obj)
  case Nil
  then show ?case by simp
next
  case (Cons p obj)
  then show ?case by (cases p) (auto simp: set_insert_index)
qed

lemma map_of_insert_index:
  "k \<notin> fst ` set obj \<Longrightarrow> map_of (insert_index k v obj) = (map_of obj)(k \<mapsto> v)"
proof (induction obj)
  case Nil
  then show ?case by simp
next
  case (Cons p obj)
  then show ?case by (cases p) (auto simp: fun_upd_twist)
qed

lemma map_of_replace:
  "map_of (map (\<lambda>(k', v'). if k' = k then (k', v) else (k', v')) obj) x
     = (if x = k then (if k \<in> fst ` set obj then Some v else None) else map_of obj x)"
proof (induction obj)
  case Nil
  then show ?case by simp
next
  case (Cons p obj)
  then show ?case by (cases p) (auto simp: image_iff split: if_splits)
qed

lemma map_fst_replace:
  "map fst (map (\<lambda>(k', v'). if k' = k then (k', v) else (k', v')) obj) = map fst obj"
  by (induction obj) auto

lemma set_property_proto [simp]: "set_property obj ''__proto__'' v = obj"
  by (simp add: set_property_def)

lemma distinct_set_property:
  assumes "distinct (map fst obj)"
  shows "distinct (map fst (set_property obj k v))"
proof (cases "k = ''__proto__''")
  case True
  with assms show ?thesis by simp
next
  case False
  show ?thesis
  proof (cases "k \<in> fst ` set obj")
    case True
    with False assms show ?thesis
      by (simp add: set_property_def map_fst_replace del: map_map)
  next
    case False
    with \<open>k \<noteq> ''__proto__''\<close> assms show ?thesis
      by (cases "is_array_index k") (simp_all add: set_property_def distinct_insert_index)
  qed
qed

lemma map_of_set_property:
  assumes "k \<noteq> ''__proto__''"
  shows "map_of (set_property obj k v) = (map_of obj)(k \<mapsto> v)"
proof (cases "k \<in> fst ` set obj")
  case True
  with assms show ?thesis
    by (auto simp: set_property_def map_of_replace fun_eq_iff)
next
  case False
  then have none: "map_of obj k = None" by (simp add: map_of_eq_None_iff)
  show ?thesis
  proof (cases "is_array_index k")
    case True
    with assms False show ?thesis by (simp add: set_property_def map_of_insert_index)
  next
    case idx: False
    have "map_of (obj @ [(k, v)]) = (map_of obj)(k \<mapsto> v)"
      using none by (auto simp: fun_eq_iff map_add_def split: option.splits)
    with assms False idx show ?thesis by (simp add: set_property_def)
  qed
qed

lemma sortObject_object:
  "sortObject (JObject obj) = JObject (foldl (sorted_step obj) [] (sort (map fst obj)))"
  by (simp add: sorted_step_def)

lemma sorted_step_proto [simp]: "sorted_step obj acc ''__proto__'' = acc"
  by (simp add: sorted_step_def split: option.splits)

lemma distinct_sorted_step:
  "distinct (map fst acc) \<Longrightarrow> distinct (map fst (sorted_step obj acc k))"
  by (simp add: sorted_step_def distinct_set_property split: option.splits)

lemma map_of_sorted_step:
  "map_of (sorted_step obj acc k)
     = (if k \<noteq> ''__proto__'' \<and> k \<in> dom (map_of obj)
        then (map_of acc)(k \<mapsto> sortObject (the (map_of obj k))) else map_of acc)"
  by (cases "k = ''__proto__''")
     (auto simp: sorted_step_def map_of_set_property split: option.splits)

lemma distinct_foldl_sorted_step:
  "distinct (map fst acc) \<Longrightarrow> distinct (map fst (foldl (sorted_step obj) acc ks))"
  by (induction ks arbitrary: acc) (simp_all add: distinct_sorted_step)

lemma map_of_foldl_sorted_step:
  "map_of (foldl (sorted_step obj) acc ks) x
     = (if x \<in> set ks \<and> x \<noteq> ''__proto__'' \<and> x \<in> dom (map_of obj)
        then Some (sortObject (the (map_of obj x))) else map_of acc x)"
proof (induction ks arbitrary: acc)
  case Nil
  then show ?case by simp
next
  case (Cons k ks)
  show ?case
    by (simp add: Cons.IH map_of_sorted_step)
qed

lemma foldl_sorted_step_filter:
  "foldl (sorted_step obj) acc (filter (\<lambda>k. k \<noteq> ''__proto__'') ks)
     = foldl (sorted_step obj) acc ks"
  by (induction ks arbitrary: acc) simp_all

lemma sortObject_twice:
  "wf_json x \<Longrightarrow> sortObject (sortObject x) = sortObject x"
proof (induction x rule: sortObject.induct)
  case (1 xs)
  then show ?case by (simp add: list_all_iff)
next
  case (2 obj)
  define ks where "ks = sort (map fst obj)"
  define R where "R = foldl (sorted_step obj) [] ks"
  have dist_obj: "distinct (map fst obj)" and wf_vals: "\<And>k v. (k, v) \<in> set obj \<Longrightarrow> wf_json v"
    using "2.prems" by (auto simp: list_all_iff)
  have keys: "set ks = dom (map_of obj)"
    by (simp add: ks_def dom_map_of_conv_image_fst)
  have dist_R: "distinct (map fst R)"
    unfolding R_def by (rule distinct_foldl_sorted_step) simp
  have map_R: "\<And>x. map_of R x = (if x \<in> set ks \<and> x \<noteq> ''__proto__''
                                  then Some (sortObject (the (map_of obj x))) else None)"
    unfolding R_def using keys by (simp add: map_of_foldl_sorted_step)
  have "set (map fst R) = dom (map_of R)"
    by (simp add: dom_map_of_conv_image_fst)
  also have "\<dots> = set (filter (\<lambda>k. k \<noteq> ''__proto__'') ks)"
    by (auto simp: dom_def map_R)
  finally have same_set: "set (sort (map fst R)) = set (filter (\<lambda>k. k \<noteq> ''__proto__'') ks)"
    by simp
  have "sorted ks" "distinct ks"
    using dist_obj by (simp_all add: ks_def)
  then have "sorted (filter (\<lambda>k. k \<noteq> ''__proto__'') ks)" "distinct (filter (\<lambda>k. k \<noteq> ''__proto__'') ks)"
    using sorted_filter [of "\<lambda>x. x" ks] by simp_all
  moreover have "sorted (sort (map fst R))" "distinct (sort (map fst R))"
    using dist_R by simp_all
  ultimately have sort_R: "sort (map fst R) = filter (\<lambda>k. k \<noteq> ''__proto__'') ks"
    using same_set by (intro sorted_distinct_set_unique)
  have step: "sorted_step R acc k = sorted_step obj acc k"
    if "k \<in> set (filter (\<lambda>k. k \<noteq> ''__proto__'') ks)" for acc k
  proof -
    from that keys obtain v where v: "map_of obj k = Some v" and k: "k \<in> set ks" "k \<noteq> ''__proto__''"
      by auto
    have "(k, v) \<in> set obj" using v by (rule map_of_SomeD)
    then have "wf_json v" by (rule wf_vals)
    then have "sortObject (sortObject v) = sortObject v"
      using "2.IH" [of k v] k v by (simp add: ks_def)
    then show ?thesis
      using v k by (simp add: sorted_step_def map_R)
  qed
  have "foldl (sorted_step R) [] (sort (map fst R))
          = foldl (sorted_step obj) [] (filter (\<lambda>k. k \<noteq> ''__proto__'') ks)"
    unfolding sort_R by (rule foldl_cong) (simp_all add: step)
  also have "\<dots> = R"
    unfolding R_def by (rule foldl_sorted_step_filter)
  finally show ?case
    by (simp only: sortObject_object flip: ks_def R_def) 
qed simp_all


lemma list_all2_map_of:
  assumes "list_all2 (\<lambda>p q. fst p = fst q \<and> P (snd p) (snd q)) xs ys"
    and "map_of xs k = Some v"
  shows "\<exists>v'. map_of ys k = Some v' \<and> P v v'"
  using assms
proof (induction xs ys rule: list_all2_induct)
  case Nil
  then show ?case by simp
next
  case (Cons x xs y ys)
  then show ?case by (cases x; cases y) (auto split: if_splits)
qed

lemma list_all2_map_fst:
  "list_all2 (\<lambda>p q. fst p = fst q \<and> P (snd p) (snd q)) xs ys \<Longrightarrow> map fst xs = map fst ys"
  by (induction xs ys rule: list_all2_induct) simp_all

lemma sort_mset_cong: "mset xs = mset ys \<Longrightarrow> sort xs = sort ys"
  by (rule properties_for_sort) simp_all

lemma sortObject_key_order:
  "same_up_to_key_order x y \<Longrightarrow> wf_json x \<Longrightarrow> wf_json y \<Longrightarrow> sortObject x = sortObject y"
proof (induction rule: same_up_to_key_order.induct)
  case (same v)
  then show ?case by simp
next
  case (arrays xs ys)
  from arrays have "map sortObject xs = map sortObject ys"
  proof (induction xs ys rule: list_all2_induct)
    case Nil
    then show ?case by simp
  next
    case (Cons x xs y ys)
    then show ?case by simp
  qed
  then show ?case by simp
next
  case (objects obj obj1 obj2)
  have dist: "distinct (map fst obj)" and wf: "\<And>k v. (k, v) \<in> set obj \<Longrightarrow> wf_json v"
    using objects(3) by (auto simp: list_all_iff)
  have dist2: "distinct (map fst obj2)" and wf2: "\<And>k v. (k, v) \<in> set obj2 \<Longrightarrow> wf_json v"
    using objects(4) by (auto simp: list_all_iff)
  have fst1: "map fst obj = map fst obj1"
    using objects(1) by (rule list_all2_map_fst)
  have set12: "set obj1 = set obj2"
    using objects(2) by (rule mset_eq_setD)
  have "mset (map fst obj1) = mset (map fst obj2)"
    using objects(2) by (metis mset_map)
  then have keys: "sort (map fst obj) = sort (map fst obj2)"
    unfolding fst1 by (rule sort_mset_cong)
  have "distinct (map fst obj1)" using dist fst1 by simp
  then have maps: "map_of obj1 = map_of obj2"
    using dist2 set12 by (simp add: map_of_inject_set)
  have step: "sorted_step obj acc k = sorted_step obj2 acc k" for acc k
  proof (cases "map_of obj k")
    case None
    then have "k \<notin> fst ` set obj" by (simp add: map_of_eq_None_iff)
    then have "k \<notin> fst ` set obj2" using fst1 set12 by (metis list.set_map)
    then have "map_of obj2 k = None" by (simp add: map_of_eq_None_iff)
    with None show ?thesis by (simp add: sorted_step_def)
  next
    case (Some v)
    from list_all2_map_of [OF objects(1) Some] obtain v'
      where v': "map_of obj1 k = Some v'"
        and ih: "same_up_to_key_order v v' \<and> (wf_json v \<longrightarrow> wf_json v' \<longrightarrow> sortObject v = sortObject v')"
      by blast
    have "(k, v) \<in> set obj" using Some by (rule map_of_SomeD)
    then have "wf_json v" by (rule wf)
    moreover have "(k, v') \<in> set obj2" using v' set12 by (auto dest: map_of_SomeD)
    then have "wf_json v'" by (rule wf2)
    ultimately have "sortObject v = sortObject v'" using ih by simp
    then show ?thesis using Some v' maps by (simp add: sorted_step_def)
  qed
  have "foldl (sorted_step obj) [] (sort (map fst obj))
          = foldl (sorted_step obj2) [] (sort (map fst obj2))"
    by (rule foldl_cong) (simp_all add: keys step)
  then show ?case by (simp only: sortObject_object)
qed

lemma payloads_same: "same_up_to_key_order payload_a payload_b"
proof -
  let ?body_a = "[(''to'', JString ''0xb0b''), (''10'', JNull), (''9'', JArray [JBool True])]"
  let ?body_b = "[(''9'', JArray [JBool True]), (''to'', JString ''0xb0b''), (''10'', JNull)]"
  have inner: "same_up_to_key_order (JObject ?body_a) (JObject ?body_b)"
    by (rule same_up_to_key_order.objects [where ?obj1.0 = ?body_a])
       (simp_all add: same_up_to_key_order.same)
  show ?thesis
    unfolding payload_a_def payload_b_def
    by (rule same_up_to_key_order.objects
          [where ?obj1.0 = "[(''version'', JNumber 1), (''method'', JString ''POST''),
                             (''body'', JObject ?body_b)]"])
       (simp_all add: same_up_to_key_order.same inner)
qed

text \<open>
  Claim C6: on the values JavaScript can hold (every object has each key once), sorting is
  idempotent, \<open>sortObject (sortObject x) = sortObject x\<close>, so canonicalizing a canonical
  value gives the same string; and two values that differ only in the order of the keys of
  their objects, at any depth, have the same canonical string. The canonical string is a
  function of the value: it is deterministic.
\<close>

theorem canonicalize_idempotent_order_invariant:
  "(wf_json x \<longrightarrow> sortObject (sortObject x) = sortObject x
                  \<and> canonicalize (sortObject x) = canonicalize x)
   \<and> (wf_json x \<and> wf_json y \<and> same_up_to_key_order x y \<longrightarrow> canonicalize x = canonicalize y)"
  using sortObject_twice [of x] sortObject_key_order [of x y]
  by (simp add: canonicalize_def)

theorem canonicalize_idempotent_order_invariant_witness:
  "sortObject (sortObject payload_a) = sortObject payload_a
   \<and> canonicalize payload_a = canonicalize payload_b
   \<and> canonicalize payload_a
       = ''{\"body\":{\"9\":[true],\"10\":null,\"to\":\"0xb0b\"},\"method\":\"POST\",\"version\":1}''"
proof -
  have wa: "wf_json payload_a" and wb: "wf_json payload_b"
    by (simp_all add: payload_a_def payload_b_def)
  have literal: "canonicalize payload_a
       = ''{\"body\":{\"9\":[true],\"10\":null,\"to\":\"0xb0b\"},\"method\":\"POST\",\"version\":1}''"
    by code_simp
  show ?thesis
    using canonicalize_idempotent_order_invariant [of payload_a payload_b] wa wb payloads_same literal
    by simp
qed


section \<open>A private key that cannot be read (claim C7)\<close>

text \<open>
  With a key the Privy client accepts, \<open>sendTransaction\<close> does go to the network: here
  the SDK call fails and the direct API is asked next.
\<close>

lemma accepted_key_reaches_network:
  "\<exists>req. history (snd (snd (privySendTransaction quiet_world keyed_signer None transfer_tx start)))
            = [WalletApiSendTransaction
                 \<lparr>wr_walletId = ''w1'', wr_to = Hex ''b0b'', wr_value = valueHex transfer_tx,
                  wr_data = None, wr_caip2 = caip2 keyed_signer\<rparr>,
               Fetch req]"
  by (simp add: privySendTransaction_def initPrivyClient_def extractPrivateKey_def
      walletApiSendTransaction_def sendTransactionDirectAPI_def fetch_def perform_def
      keyed_signer_def garbage_signer_def transfer_tx_def quiet_world_def start_def Let_def)



end
